theory Spec2Isabelle
  imports Complex_Main "HOL-Library.Word"
begin

section \<open>The global meshing heap (globalmeshingheap.h)\<close>

text \<open>
  The class \<open>GlobalMeshingHeap\<close> is embedded as functions over an explicit heap
  state. The fields the class declares itself (\<open>_maxObjectSize\<close>,
  \<open>_nextMeshCheck\<close>, \<open>_meshPeriod\<close>, \<open>_stats\<close>) are fields of a record. The
  objects whose classes live in other headers (the arena it derives from, the
  miniheaps, the per-class trackers \<open>_littleheaps\<close>, \<open>_bigheap\<close>, the two random
  number generators, the internal metadata heap) form the collaborator state \<open>'w\<close>;
  their methods and the template parameters are the fields of an environment record,
  so a theorem stated for an arbitrary environment holds for all collaborators. Each
  call to a method of the arena, a miniheap, a tracker, the metadata heap or the big
  heap that may change its object, each call of the splitting method and the
  stop-the-world call are also appended to a trace, which is how "invokes" and
  "does not invoke" are stated. Locks are not modelled: the embedding is sequential.
\<close>

subsection \<open>Data\<close>

type_synonym size_t = "64 word"

text \<open>Addresses (\<open>void *\<close>, \<open>MiniHeap *\<close>); the null pointer is address 0.\<close>

type_synonym addr = nat

definition nullptr :: addr where
  "nullptr = 0"

definition sizeof_size_t :: size_t where
  "sizeof_size_t = 8"

text \<open>\<open>GlobalHeapStats\<close>.\<close>

record GlobalHeapStats =
  meshCount :: size_t
  mhFreeCount :: size_t
  mhAllocCount :: size_t
  mhHighWaterMark :: size_t

text \<open>Calls to collaborators, in the order the heap makes them.\<close>

datatype event =
    ArenaMalloc size_t
  | ArenaFree addr size_t
  | ArenaAssoc addr addr size_t
  | ArenaMesh addr addr size_t
  | MetaMalloc
  | Construct addr addr size_t size_t size_t
  | Destruct addr
  | Reattach addr
  | Ref addr
  | Unref addr
  | SlotFree addr addr
  | Consume addr addr
  | BinAdd int addr
  | BinRemove int addr
  | BinSelectForReuse int
  | BinPostFree int addr
  | BinFlush int
  | BigMalloc size_t
  | BigFree addr
  | Splitting int
  | StopTheWorld

text \<open>
  The template parameters of \<open>GlobalMeshingHeap\<close>, the constants it takes from
  other headers, and the methods of its collaborators. A method that changes its
  object maps the collaborator state to the new one; a method that also returns a
  value returns the pair. \<open>spans()\<close> is the array of span addresses, read by index.
  \<open>mh_refCount\<close> observes the count that \<open>ref()\<close> and \<open>unref()\<close> move; the class
  itself never reads it. The two generators are part of the collaborator state, and
  \<open>uniform_int_distribution a b\<close> is one draw from \<open>_prng\<close>.
\<close>

record 'w env =
  NumBins :: nat
  getSizeClass :: "size_t \<Rightarrow> int"
  getClassMaxSize :: "int \<Rightarrow> size_t"
  DefaultMeshPeriod :: size_t
  MinStringLen :: size_t
  PageSize :: size_t
  MaxMeshes :: size_t
  Super_malloc :: "size_t \<Rightarrow> 'w \<Rightarrow> addr \<times> 'w"
  Super_free :: "addr \<Rightarrow> size_t \<Rightarrow> 'w \<Rightarrow> 'w"
  Super_assoc :: "addr \<Rightarrow> addr \<Rightarrow> size_t \<Rightarrow> 'w \<Rightarrow> 'w"
  Super_lookup :: "'w \<Rightarrow> addr \<Rightarrow> addr"
  Super_mesh :: "addr \<Rightarrow> addr \<Rightarrow> size_t \<Rightarrow> 'w \<Rightarrow> 'w"
  Heap_malloc :: "'w \<Rightarrow> addr \<times> 'w"
  measurePssKiB :: "'w \<Rightarrow> size_t"
  uniform_int_distribution :: "size_t \<Rightarrow> size_t \<Rightarrow> 'w \<Rightarrow> size_t \<times> 'w"
  simpleGreedySplitting :: "int \<Rightarrow> 'w \<Rightarrow> (addr \<times> addr) list \<times> 'w"
  mh_construct :: "addr \<Rightarrow> addr \<Rightarrow> size_t \<Rightarrow> size_t \<Rightarrow> size_t \<Rightarrow> 'w \<Rightarrow> 'w"
  mh_destroy :: "addr \<Rightarrow> 'w \<Rightarrow> 'w"
  mh_reattach :: "addr \<Rightarrow> 'w \<Rightarrow> 'w"
  mh_isAttached :: "'w \<Rightarrow> addr \<Rightarrow> bool"
  mh_ref :: "addr \<Rightarrow> 'w \<Rightarrow> 'w"
  mh_unref :: "addr \<Rightarrow> 'w \<Rightarrow> 'w"
  mh_refCount :: "'w \<Rightarrow> addr \<Rightarrow> int"
  mh_free :: "addr \<Rightarrow> addr \<Rightarrow> 'w \<Rightarrow> 'w"
  mh_isEmpty :: "'w \<Rightarrow> addr \<Rightarrow> bool"
  mh_getSize :: "'w \<Rightarrow> addr \<Rightarrow> addr \<Rightarrow> size_t"
  mh_objectSize :: "'w \<Rightarrow> addr \<Rightarrow> size_t"
  mh_spans :: "'w \<Rightarrow> addr \<Rightarrow> nat \<Rightarrow> addr"
  mh_spanSize :: "'w \<Rightarrow> addr \<Rightarrow> size_t"
  mh_meshCount :: "'w \<Rightarrow> addr \<Rightarrow> size_t"
  mh_getSpanStart :: "'w \<Rightarrow> addr \<Rightarrow> addr"
  mh_consume :: "addr \<Rightarrow> addr \<Rightarrow> 'w \<Rightarrow> 'w"
  mh_isMeshingCandidate :: "'w \<Rightarrow> addr \<Rightarrow> bool"
  bin_init :: "int \<Rightarrow> 'w \<Rightarrow> 'w"
  bin_add :: "int \<Rightarrow> addr \<Rightarrow> 'w \<Rightarrow> 'w"
  bin_remove :: "int \<Rightarrow> addr \<Rightarrow> 'w \<Rightarrow> 'w"
  bin_selectForReuse :: "int \<Rightarrow> 'w \<Rightarrow> addr \<times> 'w"
  bin_postFree :: "int \<Rightarrow> addr \<Rightarrow> 'w \<Rightarrow> bool \<times> 'w"
  bin_flushFreeMiniheaps :: "int \<Rightarrow> 'w \<Rightarrow> 'w"
  bin_nonEmptyCount :: "'w \<Rightarrow> int \<Rightarrow> size_t"
  bin_objectSize :: "'w \<Rightarrow> int \<Rightarrow> size_t"
  bin_objectCount :: "'w \<Rightarrow> int \<Rightarrow> size_t"
  bin_allocatedObjectCount :: "'w \<Rightarrow> int \<Rightarrow> size_t"
  big_malloc :: "size_t \<Rightarrow> 'w \<Rightarrow> addr \<times> 'w"
  big_free :: "addr \<Rightarrow> 'w \<Rightarrow> 'w"
  big_getSize :: "'w \<Rightarrow> addr \<Rightarrow> size_t"
  big_arenaSize :: "'w \<Rightarrow> size_t"

text \<open>The heap object: its own fields, its collaborators, and the trace.\<close>

record 'w heap =
  maxObjectSize :: size_t
  nextMeshCheck :: size_t
  meshPeriod :: size_t
  stats :: GlobalHeapStats
  world :: 'w
  trace :: "event list"


datatype fatal = Abort | AssertFail | DivideByZero

subsection \<open>Calling a collaborator\<close>

definition ext :: "event \<Rightarrow> ('w \<Rightarrow> 'w) \<Rightarrow> 'w heap \<Rightarrow> 'w heap" where
  "ext ev f s = s\<lparr>world := f (world s), trace := trace s @ [ev]\<rparr>"

definition call :: "event \<Rightarrow> ('w \<Rightarrow> 'a \<times> 'w) \<Rightarrow> 'w heap \<Rightarrow> 'a \<times> 'w heap" where
  "call ev f s = (fst (f (world s)), s\<lparr>world := snd (f (world s)), trace := trace s @ [ev]\<rparr>)"

definition bins :: "'w env \<Rightarrow> int list" where
  "bins env = map int [0..<NumBins env]"

text \<open>
  Modelled from the spec: \<open>PageCount\<close> of internal.h is not part of this file; the
  spec gives the number of pages of a miniheap's span as
  \<open>ceil(bytes / pageSize)\<close>, computed here in \<open>size_t\<close> arithmetic.
\<close>

definition PageCount :: "'w env \<Rightarrow> size_t \<Rightarrow> size_t" where
  "PageCount env sz = (sz + (PageSize env - 1)) div PageSize env"

subsection \<open>The meshing trigger\<close>

definition resetNextMeshCheck :: "'w env \<Rightarrow> 'w heap \<Rightarrow> 'w heap" where
  "resetNextMeshCheck env s =
     (if meshPeriod s = 0 then s
      else s\<lparr>nextMeshCheck := fst (uniform_int_distribution env 1 (meshPeriod s) (world s)),
             world := snd (uniform_int_distribution env 1 (meshPeriod s) (world s))\<rparr>)"

definition shouldMesh :: "'w env \<Rightarrow> 'w heap \<Rightarrow> bool \<times> 'w heap" where
  "shouldMesh env s =
     (let s1 = s\<lparr>nextMeshCheck := nextMeshCheck s - 1\<rparr>;
          shouldMesh = (meshPeriod s1 > 0 \<and> nextMeshCheck s1 = 0)
      in (shouldMesh, if shouldMesh then resetNextMeshCheck env s1 else s1))"

text \<open>
  The constructor: \<open>_nextMeshCheck{0}\<close>, \<open>_meshPeriod{DefaultMeshPeriod}\<close>,
  \<open>_stats{}\<close>, every tracker initialised, then \<open>resetNextMeshCheck\<close>. The seeded
  generators are part of the collaborator state it is given.
\<close>

definition GlobalMeshingHeap :: "'w env \<Rightarrow> 'w \<Rightarrow> 'w heap" where
  "GlobalMeshingHeap env w =
     resetNextMeshCheck env
       \<lparr>maxObjectSize = getClassMaxSize env (int (NumBins env) - 1),
        nextMeshCheck = 0,
        meshPeriod = DefaultMeshPeriod env,
        stats = \<lparr>meshCount = 0, mhFreeCount = 0, mhAllocCount = 0, mhHighWaterMark = 0\<rparr>,
        world = fold (bin_init env) (bins env) w,
        trace = []\<rparr>"

subsection \<open>Tracking and creating miniheaps\<close>

definition trackMiniheapLocked :: "'w env \<Rightarrow> size_t \<Rightarrow> addr \<Rightarrow> 'w heap \<Rightarrow> 'w heap" where
  "trackMiniheapLocked env sizeClass mh s =
     ext (BinAdd (uint sizeClass) mh) (bin_add env (uint sizeClass) mh) s"

definition untrackMiniheapLocked :: "'w env \<Rightarrow> size_t \<Rightarrow> addr \<Rightarrow> 'w heap \<Rightarrow> 'w heap" where
  "untrackMiniheapLocked env sizeClass mh s =
     ext (BinRemove (uint sizeClass) mh) (bin_remove env (uint sizeClass) mh)
       (s\<lparr>stats := (stats s)\<lparr>mhAllocCount := mhAllocCount (stats s) - 1\<rparr>\<rparr>)"

text \<open>
  \<open>allocMiniheap\<close>. A failed \<open>d_assert\<close> is the fatal outcome \<open>AssertFail\<close>, the
  two \<open>abort()\<close> calls are \<open>Abort\<close>, and the division \<open>PageSize / sizeMax\<close> traps
  when \<open>sizeMax\<close> is zero.
\<close>

definition allocMiniheap :: "'w env \<Rightarrow> size_t \<Rightarrow> 'w heap \<Rightarrow> fatal + (addr \<times> 'w heap)" where
  "allocMiniheap env objectSize s =
     (if \<not> objectSize \<le> maxObjectSize s then Inl AssertFail
      else
        let sizeClass = getSizeClass env objectSize;
            sizeMax = getClassMaxSize env sizeClass
        in
          if objectSize \<noteq> sizeMax then Inl AssertFail
          else if \<not> 0 \<le> sizeClass then Inl AssertFail
          else if \<not> sizeClass < int (NumBins env) then Inl AssertFail
          else
            let r = call (BinSelectForReuse sizeClass) (bin_selectForReuse env sizeClass) s;
                existing = fst r;
                s1 = snd r
            in
              if existing \<noteq> nullptr then
                (let s2 = ext (Reattach existing) (mh_reattach env existing) s1
                 in if \<not> mh_isAttached env (world s2) existing then Inl AssertFail
                    else Inr (existing, s2))
              else if sizeMax = 0 then Inl DivideByZero
              else
                let nObjects = max (PageSize env div sizeMax) (MinStringLen env);
                    nPages = PageCount env (sizeMax * nObjects);
                    spanSize = PageSize env * nPages
                in
                  if \<not> 0 < spanSize then Inl AssertFail
                  else
                    let r2 = call (ArenaMalloc spanSize) (Super_malloc env spanSize) s1;
                        span = fst r2
                    in
                      if span = nullptr then Inl Abort
                      else
                        let r3 = call MetaMalloc (Heap_malloc env) (snd r2);
                            buf = fst r3
                        in
                          if buf = nullptr then Inl Abort
                          else
                            let s4 = ext (Construct buf span nObjects sizeMax spanSize)
                                       (mh_construct env buf span nObjects sizeMax spanSize) (snd r3);
                                s5 = ext (ArenaAssoc span buf nPages)
                                       (Super_assoc env span buf nPages) s4;
                                s6 = trackMiniheapLocked env (word_of_int sizeClass) buf s5;
                                s7 = s6\<lparr>stats := (stats s6)\<lparr>mhAllocCount := mhAllocCount (stats s6) + 1\<rparr>\<rparr>
                            in Inr (buf, s7))"

definition malloc :: "'w env \<Rightarrow> size_t \<Rightarrow> 'w heap \<Rightarrow> fatal + (addr \<times> 'w heap)" where
  "malloc env sz s =
     (let sizeClass = getSizeClass env sz;
          sizeMax = getClassMaxSize env sizeClass
      in if sizeMax \<le> maxObjectSize s then Inl Abort
         else Inr (call (BigMalloc sz) (big_malloc env sz) s))"

text \<open>If the miniheap is non-null, its reference count is increased by one.\<close>

definition miniheapFor :: "'w env \<Rightarrow> addr \<Rightarrow> 'w heap \<Rightarrow> addr \<times> 'w heap" where
  "miniheapFor env ptr s =
     (let mh = Super_lookup env (world s) ptr
      in if mh \<noteq> nullptr then (mh, ext (Ref mh) (mh_ref env mh) s) else (mh, s))"

subsection \<open>Releasing miniheaps\<close>

text \<open>The destructor call and the poisoning \<open>memset\<close> are the collaborator's \<open>mh_destroy\<close>.\<close>

definition freeMiniheapAfterMeshLocked :: "'w env \<Rightarrow> addr \<Rightarrow> bool \<Rightarrow> 'w heap \<Rightarrow> 'w heap" where
  "freeMiniheapAfterMeshLocked env mh untrack s =
     (let sizeClass = getSizeClass env (mh_objectSize env (world s) mh);
          s1 = (if untrack then untrackMiniheapLocked env (word_of_int sizeClass) mh s else s)
      in ext (Destruct mh) (mh_destroy env mh) s1)"

text \<open>
  \<open>freeMiniheap\<close> takes its miniheap by reference and nulls it; the new value of
  the reference is the first component of the result. \<open>spans()\<close>, \<open>spanSize()\<close>
  and \<open>meshCount()\<close> are read once, before the loop.
\<close>

definition freeMiniheap :: "'w env \<Rightarrow> addr \<Rightarrow> bool \<Rightarrow> 'w heap \<Rightarrow> addr \<times> 'w heap" where
  "freeMiniheap env mh untrack s =
     (let spans = mh_spans env (world s) mh;
          spanSize = mh_spanSize env (world s) mh;
          meshCount = mh_meshCount env (world s) mh;
          s1 = fold (\<lambda>i. ext (ArenaFree (spans i) spanSize) (Super_free env (spans i) spanSize))
                 [0..<unat meshCount] s;
          s2 = s1\<lparr>stats := (stats s1)\<lparr>mhFreeCount := mhFreeCount (stats s1) + 1\<rparr>\<rparr>
      in (nullptr, freeMiniheapAfterMeshLocked env mh untrack s2))"

subsection \<open>free and getSize\<close>

text \<open>
  \<open>free\<close>. The body of \<open>if (unlikely(shouldMesh()))\<close> holds only comments, so both
  outcomes of \<open>shouldMesh\<close> continue with the state it leaves.
\<close>

definition free :: "'w env \<Rightarrow> addr \<Rightarrow> 'w heap \<Rightarrow> 'w heap" where
  "free env ptr s =
     (let r = miniheapFor env ptr s;
          mh = fst r
      in
        if mh = nullptr then ext (BigFree ptr) (big_free env ptr) (snd r)
        else
          let s1 = ext (SlotFree mh ptr) (mh_free env mh ptr) (snd r);
              shouldConsiderMesh = (\<not> mh_isEmpty env (world s1) mh);
              szClass = getSizeClass env (mh_objectSize env (world s1) mh);
              r2 = call (BinPostFree szClass mh) (bin_postFree env szClass mh) s1;
              shouldFlush = fst r2;
              s3 = (if shouldFlush
                    then ext (BinFlush szClass) (bin_flushFreeMiniheaps env szClass) (snd r2)
                    else snd r2)
          in
            if \<not> shouldConsiderMesh then s3
            else (if fst (shouldMesh env s3) then snd (shouldMesh env s3)
                  else snd (shouldMesh env s3)))"

definition getSize :: "'w env \<Rightarrow> addr \<Rightarrow> 'w heap \<Rightarrow> size_t \<times> 'w heap" where
  "getSize env ptr s =
     (if ptr = nullptr then (0, s)
      else
        let r = miniheapFor env ptr s;
            mh = fst r
        in
          if mh \<noteq> nullptr then
            (let size = mh_getSize env (world (snd r)) mh ptr
             in (size, ext (Unref mh) (mh_unref env mh) (snd r)))
          else (big_getSize env (world (snd r)) ptr, snd r))"

subsection \<open>Meshing\<close>

text \<open>
  \<open>meshLocked\<close> takes \<open>src\<close> by reference; the new value of the reference is the
  first component of the result. \<open>src->spans()\<close> and \<open>src->meshCount()\<close> are read
  after \<open>dst->consume(src)\<close>, as in the source.
\<close>

definition meshLocked :: "'w env \<Rightarrow> addr \<Rightarrow> addr \<Rightarrow> 'w heap \<Rightarrow> addr \<times> 'w heap" where
  "meshLocked env dst src s =
     (if mh_meshCount env (world s) dst + mh_meshCount env (world s) src > MaxMeshes env
      then (src, s)
      else
        let s1 = ext (Consume dst src) (mh_consume env dst src) s;
            dstSpanSize = mh_spanSize env (world s1) dst;
            dstSpanStart = mh_getSpanStart env (world s1) dst;
            srcSpans = mh_spans env (world s1) src;
            srcMeshCount = mh_meshCount env (world s1) src;
            s2 = fold (\<lambda>i. ext (ArenaMesh dstSpanStart (srcSpans i) dstSpanSize)
                              (Super_mesh env dstSpanStart (srcSpans i) dstSpanSize))
                   [0..<unat srcMeshCount] s1;
            dstClass = getSizeClass env (mh_objectSize env (world s2) dst);
            s3 = snd (call (BinPostFree dstClass dst) (bin_postFree env dstClass dst) s2)
        in (nullptr, freeMiniheapAfterMeshLocked env src True s3))"

text \<open>The callback run with the world stopped, over \<open>args->mergeSets\<close>.\<close>

fun performMeshing :: "'w env \<Rightarrow> (addr \<times> addr) list \<Rightarrow> 'w heap \<Rightarrow> 'w heap" where
  "performMeshing env [] s = s"
| "performMeshing env (mergeSet # rest) s =
     (let mergeSet' =
            (if mh_meshCount env (world s) (fst mergeSet) < mh_meshCount env (world s) (snd mergeSet)
             then (snd mergeSet, fst mergeSet) else mergeSet)
      in performMeshing env rest (snd (meshLocked env (fst mergeSet') (snd mergeSet') s)))"

text \<open>
  The sink \<open>meshFound\<close> of \<open>meshAllSizeClasses\<close>: both conjuncts of its test read
  \<open>std::get<0>\<close>.
\<close>

definition meshFound :: "'w env \<Rightarrow> 'w \<Rightarrow> addr \<times> addr \<Rightarrow> (addr \<times> addr) list \<Rightarrow> (addr \<times> addr) list" where
  "meshFound env w miniheaps mergeSets =
     (if mh_isMeshingCandidate env w (fst miniheaps) \<and> mh_isMeshingCandidate env w (fst miniheaps)
      then mergeSets @ [miniheaps] else mergeSets)"

text \<open>
  The sink \<open>meshFound\<close> of \<open>meshSizeClass\<close>, which is handed a vector: it reads
  \<open>miniheaps[0]\<close> and \<open>miniheaps[1]\<close>. Both splitting calls of \<open>meshSizeClass\<close> are
  commented out, so nothing is ever offered to this sink.
\<close>

definition meshFound_sizeClass :: "'w env \<Rightarrow> 'w \<Rightarrow> addr list \<Rightarrow> addr list list \<Rightarrow> addr list list" where
  "meshFound_sizeClass env w miniheaps mergeSets =
     (if mh_isMeshingCandidate env w (miniheaps ! 0) \<and> mh_isMeshingCandidate env w (miniheaps ! 1)
      then mergeSets @ [miniheaps] else mergeSets)"

text \<open>
  One call of \<open>method::simpleGreedySplitting\<close> on a tracker: the pairs it offers go
  through the sink, which reads the miniheaps as the splitting leaves them.
\<close>

definition splitClass :: "'w env \<Rightarrow> int \<Rightarrow> (addr \<times> addr) list \<times> 'w heap \<Rightarrow> (addr \<times> addr) list \<times> 'w heap" where
  "splitClass env i a =
     (let r = call (Splitting i) (simpleGreedySplitting env i) (snd a)
      in (fold (meshFound env (world (snd r))) (fst r) (fst a), snd r))"

text \<open>The first two loops of \<open>meshAllSizeClasses\<close>: flush every tracker, then collect the queue.\<close>

definition collectMergeSets :: "'w env \<Rightarrow> 'w heap \<Rightarrow> (addr \<times> addr) list \<times> 'w heap" where
  "collectMergeSets env s =
     (let s1 = fold (\<lambda>i. ext (BinFlush i) (bin_flushFreeMiniheaps env i)) (bins env) s
      in fold (splitClass env) (bins env) ([], s1))"

definition stopTheWorld :: "((addr \<times> addr) list \<Rightarrow> 'w heap \<Rightarrow> 'w heap) \<Rightarrow> (addr \<times> addr) list \<Rightarrow> 'w heap \<Rightarrow> 'w heap" where
  "stopTheWorld callback argument s = callback argument (s\<lparr>trace := trace s @ [StopTheWorld]\<rparr>)"

definition meshAllSizeClasses :: "'w env \<Rightarrow> 'w heap \<Rightarrow> 'w heap" where
  "meshAllSizeClasses env s =
     (let r = collectMergeSets env s;
          mergeSets = fst r;
          s2 = snd r
      in
        if length mergeSets = 0 then s2
        else
          let s3 = s2\<lparr>stats := (stats s2)\<lparr>meshCount := meshCount (stats s2) + of_nat (length mergeSets)\<rparr>\<rparr>
          in stopTheWorld (performMeshing env) mergeSets s3)"

subsection \<open>The control channel\<close>

text \<open>
  \<open>mallctl\<close>. A pointer argument is \<open>None\<close> when null and otherwise carries what it
  points to: \<open>oldp\<close> the \<open>size_t\<close> in the output buffer, \<open>oldlenp\<close> the length
  stored there, \<open>newp\<close> the \<open>size_t\<close> to be written. The result is the return
  code, the output buffer after the call, and the heap after the call.
\<close>

definition statsActive :: "'w env \<Rightarrow> 'w \<Rightarrow> size_t" where
  "statsActive env w =
     fold (\<lambda>i sz. let count = bin_nonEmptyCount env w i
                  in if count = 0 then sz
                     else sz + count * bin_objectSize env w i * bin_objectCount env w i)
       (bins env) (big_arenaSize env w)"

definition statsAllocated :: "'w env \<Rightarrow> 'w \<Rightarrow> size_t" where
  "statsAllocated env w =
     fold (\<lambda>i sz. let count = bin_nonEmptyCount env w i
                  in if count = 0 then sz
                     else sz + bin_objectSize env w i * bin_allocatedObjectCount env w i)
       (bins env) (big_arenaSize env w)"

definition mallctl ::
  "'w env \<Rightarrow> string \<Rightarrow> size_t option \<Rightarrow> size_t option \<Rightarrow> size_t option \<Rightarrow> size_t \<Rightarrow> 'w heap
     \<Rightarrow> int \<times> size_t option \<times> 'w heap" where
  "mallctl env name oldp oldlenp newp newlen s =
     (if oldp = None \<or> oldlenp = None \<or> the oldlenp < sizeof_size_t then (- 1, oldp, s)
      else if name = ''mesh.check_period'' then
        (if newp = None \<or> newlen < sizeof_size_t then (- 1, Some (meshPeriod s), s)
         else (0, Some (meshPeriod s), resetNextMeshCheck env (s\<lparr>meshPeriod := the newp\<rparr>)))
      else if name = ''mesh.compact'' then (0, oldp, meshAllSizeClasses env s)
      else if name = ''arena'' then (0, oldp, s)
      else if name = ''stats.resident'' then (0, Some (measurePssKiB env (world s) * 1024), s)
      else if name = ''stats.active'' then (0, Some (statsActive env (world s)), s)
      else if name = ''stats.allocated'' then (0, Some (statsAllocated env (world s)), s)
      else (0, oldp, s))"


subsection \<open>Reading the trace\<close>

text \<open>
  A meshing pass shows in the trace as the splitting calls and the stop-the-world
  call; a miniheap is created by a \<open>Construct\<close> and untracked by a \<open>BinRemove\<close>.
\<close>

fun passEvent :: "event \<Rightarrow> bool" where
  "passEvent (Splitting i) = True"
| "passEvent StopTheWorld = True"
| "passEvent _ = False"

fun isCreate :: "event \<Rightarrow> bool" where
  "isCreate (Construct buf start nObjects sizeMax spanSize) = True"
| "isCreate _ = False"

fun isUntrack :: "event \<Rightarrow> bool" where
  "isUntrack (BinRemove c mh) = True"
| "isUntrack _ = False"

text \<open>
  \<open>mhAllocCount\<close>, corrected by the miniheaps untracked and created so far: the
  quantity that stays fixed if the counter moves only with those two events.
\<close>

definition allocBalance :: "'w heap \<Rightarrow> size_t" where
  "allocBalance s =
     mhAllocCount (stats s) + of_nat (length (filter isUntrack (trace s)))
       - of_nat (length (filter isCreate (trace s)))"

subsection \<open>Reference collaborators\<close>

text \<open>
  Modelled from the spec: the miniheap, the arena, the per-class trackers, the
  splitting method and the big heap are defined in other headers (miniheap.h,
  meshable-arena.h, binnedtracker.h, meshing.h). This subsection gives one concrete
  set of collaborators that follows the contracts the spec states for them, so that
  the heap can be run on concrete inputs. A miniheap owns equal-length spans, a
  bitmap of allocated slots, an object size, an object count, a reference count and
  the attached bit; its mesh count is its number of spans.
\<close>

record miniheap =
  mSpans :: "addr list"
  mSpanSize :: size_t
  mObjectSize :: size_t
  mObjectCount :: size_t
  mBitmap :: "nat list"
  mRefCount :: int
  mAttached :: bool

text \<open>
  Modelled from the spec: the collaborator state. The miniheap objects by address,
  the arena's page to owner map, the trackers' lists of miniheaps, the big heap's
  blocks and arena size, the next unused address, and the generator's state.
\<close>

record sim =
  miniheaps :: "addr \<Rightarrow> miniheap option"
  owner :: "nat \<Rightarrow> addr"
  littleheaps :: "int \<Rightarrow> addr list"
  bigBlocks :: "addr \<Rightarrow> size_t option"
  bigArena :: size_t
  brk :: addr
  rng :: size_t

definition sim_update :: "addr \<Rightarrow> (miniheap \<Rightarrow> miniheap) \<Rightarrow> sim \<Rightarrow> sim" where
  "sim_update mh f w =
     (case miniheaps w mh of None \<Rightarrow> w | Some m \<Rightarrow> w\<lparr>miniheaps := (miniheaps w)(mh := Some (f m))\<rparr>)"

definition sim_read :: "(miniheap \<Rightarrow> 'a) \<Rightarrow> 'a \<Rightarrow> sim \<Rightarrow> addr \<Rightarrow> 'a" where
  "sim_read f d w mh = (case miniheaps w mh of None \<Rightarrow> d | Some m \<Rightarrow> f m)"

text \<open>
  Modelled from the spec: size classes. Eleven classes of 16, 32, ..., 16384 bytes,
  so that the largest class holds objects of exactly 16 KiB; a larger size falls in
  class 11, whose maximum is above every small object.
\<close>

definition sim_getSizeClass :: "size_t \<Rightarrow> int" where
  "sim_getSizeClass sz =
     (if sz \<le> 16 then 0 else if sz \<le> 32 then 1 else if sz \<le> 64 then 2
      else if sz \<le> 128 then 3 else if sz \<le> 256 then 4 else if sz \<le> 512 then 5
      else if sz \<le> 1024 then 6 else if sz \<le> 2048 then 7 else if sz \<le> 4096 then 8
      else if sz \<le> 8192 then 9 else if sz \<le> 16384 then 10 else 11)"

definition sim_getClassMaxSize :: "int \<Rightarrow> size_t" where
  "sim_getClassMaxSize c = push_bit (nat c) 16"

text \<open>
  Modelled from the spec: the arena. It hands out page-aligned spans from its region
  (null when the region is used up), records the owner of each page of a span,
  resolves a pointer to the owner of its page, and on a mesh routes the pages of the
  source span to the owner of the destination span. The metadata heap hands out
  storage for a miniheap object from the same region.
\<close>

definition sim_Super_malloc :: "size_t \<Rightarrow> sim \<Rightarrow> addr \<times> sim" where
  "sim_Super_malloc sz w =
     (if brk w + unat sz \<le> 2 ^ 32 then (brk w, w\<lparr>brk := brk w + unat sz\<rparr>) else (nullptr, w))"

definition sim_Super_assoc :: "addr \<Rightarrow> addr \<Rightarrow> size_t \<Rightarrow> sim \<Rightarrow> sim" where
  "sim_Super_assoc start mh nPages w =
     w\<lparr>owner := (\<lambda>p. if start div 4096 \<le> p \<and> p < start div 4096 + unat nPages then mh
                       else owner w p)\<rparr>"

definition sim_Super_free :: "addr \<Rightarrow> size_t \<Rightarrow> sim \<Rightarrow> sim" where
  "sim_Super_free start sz w = sim_Super_assoc start nullptr (sz div 4096) w"

definition sim_Super_lookup :: "sim \<Rightarrow> addr \<Rightarrow> addr" where
  "sim_Super_lookup w ptr = owner w (ptr div 4096)"

definition sim_Super_mesh :: "addr \<Rightarrow> addr \<Rightarrow> size_t \<Rightarrow> sim \<Rightarrow> sim" where
  "sim_Super_mesh dst src sz w = sim_Super_assoc src (sim_Super_lookup w dst) (sz div 4096) w"

definition sim_Heap_malloc :: "sim \<Rightarrow> addr \<times> sim" where
  "sim_Heap_malloc w =
     (if brk w + 256 \<le> 2 ^ 32 then (brk w, w\<lparr>brk := brk w + 256\<rparr>) else (nullptr, w))"

text \<open>A draw in the range from \<open>a\<close> to \<open>b\<close>, from a linear congruential generator.\<close>

definition sim_uniform :: "size_t \<Rightarrow> size_t \<Rightarrow> sim \<Rightarrow> size_t \<times> sim" where
  "sim_uniform a b w =
     (a + rng w mod (b - a + 1), w\<lparr>rng := rng w * 6364136223846793005 + 1442695040888963407\<rparr>)"

text \<open>
  Modelled from the spec: the miniheap. A new miniheap has one span, no slot in use
  and is attached to its caller; freeing a pointer clears the slot it addresses;
  \<open>consume\<close> merges the bitmap of the source into the destination and takes over
  its spans.
\<close>

definition sim_construct :: "addr \<Rightarrow> addr \<Rightarrow> size_t \<Rightarrow> size_t \<Rightarrow> size_t \<Rightarrow> sim \<Rightarrow> sim" where
  "sim_construct buf start nObjects sizeMax spanSize w =
     w\<lparr>miniheaps := (miniheaps w)(buf := Some
          \<lparr>mSpans = [start], mSpanSize = spanSize, mObjectSize = sizeMax, mObjectCount = nObjects,
           mBitmap = [], mRefCount = 0, mAttached = True\<rparr>)\<rparr>"

definition sim_destroy :: "addr \<Rightarrow> sim \<Rightarrow> sim" where
  "sim_destroy mh w = w\<lparr>miniheaps := (miniheaps w)(mh := None)\<rparr>"

definition sim_slot :: "miniheap \<Rightarrow> addr \<Rightarrow> nat" where
  "sim_slot m ptr =
     (case filter (\<lambda>sp. sp \<le> ptr \<and> ptr < sp + unat (mSpanSize m)) (mSpans m) of
        [] \<Rightarrow> 0
      | sp # _ \<Rightarrow> (ptr - sp) div unat (mObjectSize m))"

definition sim_free :: "addr \<Rightarrow> addr \<Rightarrow> sim \<Rightarrow> sim" where
  "sim_free mh ptr w = sim_update mh (\<lambda>m. m\<lparr>mBitmap := removeAll (sim_slot m ptr) (mBitmap m)\<rparr>) w"

definition sim_consume :: "addr \<Rightarrow> addr \<Rightarrow> sim \<Rightarrow> sim" where
  "sim_consume dst src w =
     (case miniheaps w src of
        None \<Rightarrow> w
      | Some sm \<Rightarrow> sim_update dst (\<lambda>m. m\<lparr>mSpans := mSpans m @ mSpans sm,
                                          mBitmap := mBitmap m @ mBitmap sm\<rparr>) w)"

text \<open>
  Modelled from the spec: a miniheap is a meshing candidate iff its occupancy is below
  a threshold, here four fifths of its slots, and it is not attached.
\<close>

definition sim_isMeshingCandidate :: "sim \<Rightarrow> addr \<Rightarrow> bool" where
  "sim_isMeshingCandidate w mh =
     sim_read (\<lambda>m. \<not> mAttached m \<and> 5 * length (mBitmap m) < 4 * unat (mObjectCount m)) False w mh"

text \<open>
  Modelled from the spec: the tracker. \<open>selectForReuse\<close> returns a partially empty,
  unattached miniheap if there is one, and null otherwise.
\<close>

definition sim_selectForReuse :: "int \<Rightarrow> sim \<Rightarrow> addr \<times> sim" where
  "sim_selectForReuse i w =
     (case filter (\<lambda>mh. sim_read (\<lambda>m. \<not> mAttached m \<and> length (mBitmap m) < unat (mObjectCount m))
                          False w mh) (littleheaps w i) of
        [] \<Rightarrow> (nullptr, w)
      | mh # _ \<Rightarrow> (mh, w))"

text \<open>
  Modelled from the spec: \<open>postFree\<close> drops the reference taken by the lookup and
  advises a flush when the miniheap is empty; \<open>flushFreeMiniheaps\<close> releases the
  empty, unattached miniheaps of the class: their spans go back to the arena, the
  object is destroyed and the tracker forgets it.
\<close>

definition sim_postFree :: "int \<Rightarrow> addr \<Rightarrow> sim \<Rightarrow> bool \<times> sim" where
  "sim_postFree i mh w =
     (sim_read (\<lambda>m. mBitmap m = []) False w mh,
      sim_update mh (\<lambda>m. m\<lparr>mRefCount := mRefCount m - 1\<rparr>) w)"

definition sim_release :: "int \<Rightarrow> addr \<Rightarrow> sim \<Rightarrow> sim" where
  "sim_release i mh w =
     (case miniheaps w mh of
        None \<Rightarrow> w
      | Some m \<Rightarrow>
          if mBitmap m = [] \<and> \<not> mAttached m then
            sim_destroy mh
              ((fold (\<lambda>sp. sim_Super_free sp (mSpanSize m)) (mSpans m) w)
                 \<lparr>littleheaps := (littleheaps w)(i := removeAll mh (littleheaps w i))\<rparr>)
          else w)"

definition sim_flushFreeMiniheaps :: "int \<Rightarrow> sim \<Rightarrow> sim" where
  "sim_flushFreeMiniheaps i w = fold (sim_release i) (littleheaps w i) w"

text \<open>
  Modelled from the spec: the splitting method partitions the miniheaps of the class
  into two groups, here the two halves of the tracker's list, and offers the pairs,
  one miniheap from each group, whose bitmaps are disjoint.
\<close>

definition sim_simpleGreedySplitting :: "int \<Rightarrow> sim \<Rightarrow> (addr \<times> addr) list \<times> sim" where
  "sim_simpleGreedySplitting i w =
     (let l = littleheaps w i; h = length l div 2
      in (filter (\<lambda>p. set (sim_read mBitmap [] w (fst p)) \<inter> set (sim_read mBitmap [] w (snd p)) = {})
            (zip (take h l) (drop h l)), w))"

text \<open>Modelled from the spec: the big heap records the size of each block it hands out.\<close>

definition sim_big_malloc :: "size_t \<Rightarrow> sim \<Rightarrow> addr \<times> sim" where
  "sim_big_malloc sz w =
     (if brk w + unat sz \<le> 2 ^ 32
      then (brk w, w\<lparr>bigBlocks := (bigBlocks w)(brk w := Some sz), bigArena := bigArena w + sz,
                     brk := brk w + unat sz\<rparr>)
      else (nullptr, w))"

text \<open>
  The environment of the reference collaborators: pages of 4096 bytes, at least 8
  objects to a miniheap, at most 4 spans to a miniheap.
\<close>

definition sim_env :: "sim env" where
  "sim_env =
     \<lparr>NumBins = 11,
      getSizeClass = sim_getSizeClass,
      getClassMaxSize = sim_getClassMaxSize,
      DefaultMeshPeriod = 10000,
      MinStringLen = 8,
      PageSize = 4096,
      MaxMeshes = 4,
      Super_malloc = sim_Super_malloc,
      Super_free = sim_Super_free,
      Super_assoc = sim_Super_assoc,
      Super_lookup = sim_Super_lookup,
      Super_mesh = sim_Super_mesh,
      Heap_malloc = sim_Heap_malloc,
      measurePssKiB = (\<lambda>w. of_nat (brk w div 1024)),
      uniform_int_distribution = sim_uniform,
      simpleGreedySplitting = sim_simpleGreedySplitting,
      mh_construct = sim_construct,
      mh_destroy = sim_destroy,
      mh_reattach = (\<lambda>mh. sim_update mh (\<lambda>m. m\<lparr>mAttached := True\<rparr>)),
      mh_isAttached = sim_read mAttached False,
      mh_ref = (\<lambda>mh. sim_update mh (\<lambda>m. m\<lparr>mRefCount := mRefCount m + 1\<rparr>)),
      mh_unref = (\<lambda>mh. sim_update mh (\<lambda>m. m\<lparr>mRefCount := mRefCount m - 1\<rparr>)),
      mh_refCount = sim_read mRefCount 0,
      mh_free = sim_free,
      mh_isEmpty = sim_read (\<lambda>m. mBitmap m = []) True,
      mh_getSize = (\<lambda>w mh ptr. sim_read mObjectSize 0 w mh),
      mh_objectSize = sim_read mObjectSize 0,
      mh_spans = (\<lambda>w mh i. sim_read (\<lambda>m. if i < length (mSpans m) then mSpans m ! i else nullptr) nullptr w mh),
      mh_spanSize = sim_read mSpanSize 0,
      mh_meshCount = sim_read (\<lambda>m. of_nat (length (mSpans m))) 0,
      mh_getSpanStart = sim_read (\<lambda>m. case mSpans m of [] \<Rightarrow> nullptr | sp # _ \<Rightarrow> sp) nullptr,
      mh_consume = sim_consume,
      mh_isMeshingCandidate = sim_isMeshingCandidate,
      bin_init = (\<lambda>i w. w\<lparr>littleheaps := (littleheaps w)(i := [])\<rparr>),
      bin_add = (\<lambda>i mh w. w\<lparr>littleheaps := (littleheaps w)(i := littleheaps w i @ [mh])\<rparr>),
      bin_remove = (\<lambda>i mh w. w\<lparr>littleheaps := (littleheaps w)(i := removeAll mh (littleheaps w i))\<rparr>),
      bin_selectForReuse = sim_selectForReuse,
      bin_postFree = sim_postFree,
      bin_flushFreeMiniheaps = sim_flushFreeMiniheaps,
      bin_nonEmptyCount = (\<lambda>w i. of_nat (length (filter (\<lambda>mh. \<not> sim_read (\<lambda>m. mBitmap m = []) True w mh) (littleheaps w i)))),
      bin_objectSize = (\<lambda>w i. sim_getClassMaxSize i),
      bin_objectCount = (\<lambda>w i. max (4096 div sim_getClassMaxSize i) 8),
      bin_allocatedObjectCount = (\<lambda>w i. of_nat (sum_list (map (\<lambda>mh. sim_read (\<lambda>m. length (mBitmap m)) 0 w mh) (littleheaps w i)))),
      big_malloc = sim_big_malloc,
      big_free = (\<lambda>ptr w. w\<lparr>bigBlocks := (bigBlocks w)(ptr := None)\<rparr>),
      big_getSize = (\<lambda>w ptr. case bigBlocks w ptr of None \<Rightarrow> 0 | Some sz \<Rightarrow> sz),
      big_arenaSize = bigArena\<rparr>"

text \<open>The collaborators before the constructor runs: nothing allocated, addresses from 65536 on.\<close>

definition sim_start :: sim where
  "sim_start =
     \<lparr>miniheaps = (\<lambda>a. None), owner = (\<lambda>p. nullptr), littleheaps = (\<lambda>i. []),
      bigBlocks = (\<lambda>a. None), bigArena = 0, brk = 65536, rng = 2017\<rparr>"

text \<open>
  A heap with two miniheaps of the 16-byte class, 256 slots each, in the tracker of
  class 0: the one at 1024 over the page at 65536 with slots 0 and 2 in use and not
  attached; the one at 2048 over the page at 69632 with slots 1 and 3 in use and
  attached to a front-end.
\<close>

definition sim_two :: sim where
  "sim_two =
     \<lparr>miniheaps = (\<lambda>a. None)
        (1024 := Some \<lparr>mSpans = [65536], mSpanSize = 4096, mObjectSize = 16, mObjectCount = 256,
                       mBitmap = [0, 2], mRefCount = 0, mAttached = False\<rparr>,
         2048 := Some \<lparr>mSpans = [69632], mSpanSize = 4096, mObjectSize = 16, mObjectCount = 256,
                       mBitmap = [1, 3], mRefCount = 0, mAttached = True\<rparr>),
      owner = (\<lambda>p. nullptr)(16 := 1024, 17 := 2048),
      littleheaps = (\<lambda>i. [])(0 := [1024, 2048]),
      bigBlocks = (\<lambda>a. None), bigArena = 0, brk = 73728, rng = 2017\<rparr>"

definition heap_two :: "size_t \<Rightarrow> size_t \<Rightarrow> sim heap" where
  "heap_two period countdown =
     \<lparr>maxObjectSize = 16384, nextMeshCheck = countdown, meshPeriod = period,
      stats = \<lparr>meshCount = 0, mhFreeCount = 0, mhAllocCount = 2, mhHighWaterMark = 0\<rparr>,
      world = sim_two, trace = []\<rparr>"


section \<open>Properties\<close>

subsection \<open>Collaborator calls and the trace\<close>


lemma ext_simps [simp]:
  "world (ext ev f s) = f (world s)" "trace (ext ev f s) = trace s @ [ev]" "stats (ext ev f s) = stats s"
  "meshPeriod (ext ev f s) = meshPeriod s" "nextMeshCheck (ext ev f s) = nextMeshCheck s" "maxObjectSize (ext ev f s) = maxObjectSize s"
  by (simp_all add: ext_def)

lemma call_simps [simp]:
  "fst (call ev f s) = fst (f (world s))"
  "world (snd (call ev f s)) = snd (f (world s))" "trace (snd (call ev f s)) = trace s @ [ev]" "stats (snd (call ev f s)) = stats s"
  "meshPeriod (snd (call ev f s)) = meshPeriod s" "nextMeshCheck (snd (call ev f s)) = nextMeshCheck s" "maxObjectSize (snd (call ev f s)) = maxObjectSize s"
  by (simp_all add: call_def)

lemma fold_ext:
  "fold (\<lambda>i. ext (ev i) (f i)) xs s = s\<lparr>world := fold f xs (world s), trace := trace s @ map ev xs\<rparr>"
  by (induction xs arbitrary: s) (simp_all add: ext_def)



lemma untrack_simps [simp]:
  "trace (untrackMiniheapLocked env c mh s) = trace s @ [BinRemove (uint c) mh]"
  "stats (untrackMiniheapLocked env c mh s) = (stats s)\<lparr>mhAllocCount := mhAllocCount (stats s) - 1\<rparr>"
  "world (untrackMiniheapLocked env c mh s) = bin_remove env (uint c) mh (world s)"
  "meshPeriod (untrackMiniheapLocked env c mh s) = meshPeriod s"
  "nextMeshCheck (untrackMiniheapLocked env c mh s) = nextMeshCheck s"
  "maxObjectSize (untrackMiniheapLocked env c mh s) = maxObjectSize s"
  by (simp_all add: untrackMiniheapLocked_def)

lemma freeAfterMesh_simps [simp]:
  "trace (freeMiniheapAfterMeshLocked env mh untrack s) =
     trace s @ (if untrack then [BinRemove (uint (word_of_int (getSizeClass env (mh_objectSize env (world s) mh)) :: size_t)) mh] else [])
       @ [Destruct mh]"
  "stats (freeMiniheapAfterMeshLocked env mh untrack s) =
     (if untrack then (stats s)\<lparr>mhAllocCount := mhAllocCount (stats s) - 1\<rparr> else stats s)"
  "meshPeriod (freeMiniheapAfterMeshLocked env mh untrack s) = meshPeriod s"
  "nextMeshCheck (freeMiniheapAfterMeshLocked env mh untrack s) = nextMeshCheck s"
  "maxObjectSize (freeMiniheapAfterMeshLocked env mh untrack s) = maxObjectSize s"
  by (simp_all add: freeMiniheapAfterMeshLocked_def Let_def)

lemma meshLocked_refused:
  "mh_meshCount env (world s) dst + mh_meshCount env (world s) src > MaxMeshes env \<Longrightarrow>
     meshLocked env dst src s = (src, s)"
  by (simp add: meshLocked_def)

lemma meshLocked_merges:
  assumes "\<not> mh_meshCount env (world s) dst + mh_meshCount env (world s) src > MaxMeshes env"
  shows "fst (meshLocked env dst src s) = nullptr"
    and "\<exists>c c'. trace (snd (meshLocked env dst src s)) =
        trace s @ [Consume dst src] @
        map (\<lambda>i. ArenaMesh (mh_getSpanStart env (mh_consume env dst src (world s)) dst)
                    (mh_spans env (mh_consume env dst src (world s)) src i)
                    (mh_spanSize env (mh_consume env dst src (world s)) dst))
          [0..<unat (mh_meshCount env (mh_consume env dst src (world s)) src)] @
        [BinPostFree c dst, BinRemove c' src, Destruct src]"
    and "stats (snd (meshLocked env dst src s)) = (stats s)\<lparr>mhAllocCount := mhAllocCount (stats s) - 1\<rparr>"
    and "meshPeriod (snd (meshLocked env dst src s)) = meshPeriod s"
    and "nextMeshCheck (snd (meshLocked env dst src s)) = nextMeshCheck s"
  using assms by (simp_all add: meshLocked_def Let_def fold_ext)

lemma meshLocked_meshCount [simp]:
  "meshCount (stats (snd (meshLocked env dst src s))) = meshCount (stats s)"
  by (cases "mh_meshCount env (world s) dst + mh_meshCount env (world s) src > MaxMeshes env")
     (simp_all add: meshLocked_refused meshLocked_merges)

lemma meshLocked_stw [simp]:
  "count_list (trace (snd (meshLocked env dst src s))) StopTheWorld = count_list (trace s) StopTheWorld"
proof (cases "mh_meshCount env (world s) dst + mh_meshCount env (world s) src > MaxMeshes env")
  case True
  then show ?thesis by (simp add: meshLocked_refused)
next
  case False
  from meshLocked_merges(2) [OF False] obtain c c' where
    "trace (snd (meshLocked env dst src s)) =
        trace s @ [Consume dst src] @
        map (\<lambda>i. ArenaMesh (mh_getSpanStart env (mh_consume env dst src (world s)) dst)
                    (mh_spans env (mh_consume env dst src (world s)) src i)
                    (mh_spanSize env (mh_consume env dst src (world s)) dst))
          [0..<unat (mh_meshCount env (mh_consume env dst src (world s)) src)] @
        [BinPostFree c dst, BinRemove c' src, Destruct src]" by blast
  then show ?thesis by (simp add: count_list_0_iff image_iff)
qed

lemma filter_map_none: "(\<And>x. \<not> P (f x)) \<Longrightarrow> filter P (map f xs) = []"
  by (induction xs) simp_all

lemma meshLocked_balance [simp]:
  "allocBalance (snd (meshLocked env dst src s)) = allocBalance s"
proof (cases "mh_meshCount env (world s) dst + mh_meshCount env (world s) src > MaxMeshes env")
  case True
  then show ?thesis by (simp add: meshLocked_refused)
next
  case False
  from meshLocked_merges(2) [OF False] obtain c c' where
    "trace (snd (meshLocked env dst src s)) =
        trace s @ [Consume dst src] @
        map (\<lambda>i. ArenaMesh (mh_getSpanStart env (mh_consume env dst src (world s)) dst)
                    (mh_spans env (mh_consume env dst src (world s)) src i)
                    (mh_spanSize env (mh_consume env dst src (world s)) dst))
          [0..<unat (mh_meshCount env (mh_consume env dst src (world s)) src)] @
        [BinPostFree c dst, BinRemove c' src, Destruct src]" by blast
  then show ?thesis
    by (simp add: allocBalance_def meshLocked_merges(3) [OF False] filter_map_none)
qed

lemma performMeshing_meshCount [simp]:
  "meshCount (stats (performMeshing env ms s)) = meshCount (stats s)"
  by (induction ms arbitrary: s) (simp_all add: Let_def)

lemma performMeshing_stw [simp]:
  "count_list (trace (performMeshing env ms s)) StopTheWorld = count_list (trace s) StopTheWorld"
  by (induction ms arbitrary: s) (simp_all add: Let_def)

lemma performMeshing_balance [simp]:
  "allocBalance (performMeshing env ms s) = allocBalance s"
  by (induction ms arbitrary: s) (simp_all add: Let_def)

lemma splitClass_simps [simp]:
  "trace (snd (splitClass env i a)) = trace (snd a) @ [Splitting i]"
  "stats (snd (splitClass env i a)) = stats (snd a)"
  "meshPeriod (snd (splitClass env i a)) = meshPeriod (snd a)"
  "nextMeshCheck (snd (splitClass env i a)) = nextMeshCheck (snd a)"
  by (simp_all add: splitClass_def Let_def)

lemma fold_splitClass [simp]:
  "trace (snd (fold (splitClass env) xs a)) = trace (snd a) @ map Splitting xs"
  "stats (snd (fold (splitClass env) xs a)) = stats (snd a)"
  "meshPeriod (snd (fold (splitClass env) xs a)) = meshPeriod (snd a)"
  "nextMeshCheck (snd (fold (splitClass env) xs a)) = nextMeshCheck (snd a)"
  by (induction xs arbitrary: a) simp_all

lemma collectMergeSets_simps [simp]:
  "trace (snd (collectMergeSets env s)) = trace s @ map BinFlush (bins env) @ map Splitting (bins env)"
  "stats (snd (collectMergeSets env s)) = stats s"
  "meshPeriod (snd (collectMergeSets env s)) = meshPeriod s"
  "nextMeshCheck (snd (collectMergeSets env s)) = nextMeshCheck s"
  by (simp_all add: collectMergeSets_def Let_def fold_ext)


lemma meshAll_balance [simp]: "allocBalance (meshAllSizeClasses env s) = allocBalance s"
  apply (simp add: meshAllSizeClasses_def Let_def stopTheWorld_def)
  apply (simp add: allocBalance_def filter_map_none)
  done




lemma resetNextMeshCheck_simps [simp]:
  "trace (resetNextMeshCheck env s) = trace s"
  "stats (resetNextMeshCheck env s) = stats s"
  "meshPeriod (resetNextMeshCheck env s) = meshPeriod s"
  "maxObjectSize (resetNextMeshCheck env s) = maxObjectSize s"
  by (simp_all add: resetNextMeshCheck_def)

lemma shouldMesh_simps [simp]:
  "trace (snd (shouldMesh env s)) = trace s"
  "stats (snd (shouldMesh env s)) = stats s"
  "meshPeriod (snd (shouldMesh env s)) = meshPeriod s"
  "maxObjectSize (snd (shouldMesh env s)) = maxObjectSize s"
  by (simp_all add: shouldMesh_def Let_def)

lemma free_frame:
  "stats (free env ptr s) = stats s"
  "meshPeriod (free env ptr s) = meshPeriod s"
  "filter passEvent (trace (free env ptr s)) = filter passEvent (trace s)"
  "filter isUntrack (trace (free env ptr s)) = filter isUntrack (trace s)"
  "filter isCreate (trace (free env ptr s)) = filter isCreate (trace s)"
  by (simp_all add: free_def miniheapFor_def Let_def)


lemma freeMiniheap_simps:
  "fst (freeMiniheap env mh untrack s) = nullptr"
  "stats (snd (freeMiniheap env mh untrack s)) =
     (if untrack then (stats s)\<lparr>mhFreeCount := mhFreeCount (stats s) + 1, mhAllocCount := mhAllocCount (stats s) - 1\<rparr>
      else (stats s)\<lparr>mhFreeCount := mhFreeCount (stats s) + 1\<rparr>)"
  "allocBalance (snd (freeMiniheap env mh untrack s)) = allocBalance s"
  by (simp_all add: freeMiniheap_def Let_def fold_ext allocBalance_def filter_map_none)

lemma free_balance: "allocBalance (free env ptr s) = allocBalance s"
  by (simp add: allocBalance_def free_frame)

lemma mallctl_balance:
  "allocBalance (snd (snd (mallctl env name oldp oldlenp newp newlen s))) = allocBalance s"
  by (simp add: mallctl_def allocBalance_def [of "resetNextMeshCheck _ _"]) (simp add: allocBalance_def)

lemma allocMiniheap_balance:
  "allocMiniheap env sz s = Inr r \<Longrightarrow> allocBalance (snd r) = allocBalance s"
  by (auto simp add: allocMiniheap_def Let_def allocBalance_def trackMiniheapLocked_def split: if_splits)


subsection \<open>Page arithmetic\<close>


lemma ceiling_div_nat:
  assumes "0 < (p::nat)"
  shows "\<lceil>real a / real p\<rceil> = int ((a + p - 1) div p)"
proof (rule ceiling_unique)
  let ?n = "(a + p - 1) div p"
  have le: "?n * p \<le> a + p - 1" by simp
  have less: "a + p - 1 < p + ?n * p" using assms by (rule dividend_less_div_times)
  from less assms have "a \<le> ?n * p" by linarith
  then have "real a \<le> real (?n * p)" by (simp only: of_nat_le_iff)
  then show "real a / real p \<le> of_int (int ?n)" using assms by (simp add: pos_divide_le_eq)
  from le assms have "?n * p < a + p" by linarith
  then have "real (?n * p) < real (a + p)" by (simp only: of_nat_less_iff)
  then have "(real ?n - 1) * real p < real a" by (simp add: algebra_simps)
  then show "of_int (int ?n) - 1 < real a / real p"
    using assms by (simp add: pos_less_divide_eq)
qed

lemma PageCount_unat:
  assumes "0 < PageSize env" and "unat b + unat (PageSize env) \<le> 2 ^ 64"
  shows "unat (PageCount env b) = (unat b + unat (PageSize env) - 1) div unat (PageSize env)"
proof -
  have p: "0 < unat (PageSize env)" using assms(1) by (simp add: unat_gt_0 word_neq_0_conv)
  have m: "unat (PageSize env - 1) = unat (PageSize env) - 1"
    using assms(1) by (simp add: unat_minus_one)
  have "unat b + unat (PageSize env - 1) < 2 ^ LENGTH(64)" using m p assms(2) by simp
  then have "unat (b + (PageSize env - 1)) = unat b + unat (PageSize env - 1)"
    by (simp only: unat_add_lem)
  with m p show ?thesis by (simp add: PageCount_def unat_div)
qed

lemma span_bytes:
  assumes "0 < PageSize env" and "0 < b" and "unat b + unat (PageSize env) \<le> 2 ^ 64"
  shows "unat (PageSize env * PageCount env b) = unat (PageSize env) * unat (PageCount env b)"
    and "0 < PageSize env * PageCount env b"
proof -
  let ?P = "unat (PageSize env)"
  have p: "0 < ?P" using assms(1) by (simp add: unat_gt_0 word_neq_0_conv)
  have b: "0 < unat b" using assms(2) by (simp add: unat_gt_0 word_neq_0_conv)
  have n: "unat (PageCount env b) = (unat b + ?P - 1) div ?P"
    using assms(1,3) by (rule PageCount_unat)
  have le: "?P * ((unat b + ?P - 1) div ?P) \<le> unat b + ?P - 1" by simp
  have "unat b + ?P - 1 < 2 ^ 64" using p assms(3) by linarith
  with le have "?P * ((unat b + ?P - 1) div ?P) < 2 ^ 64" by linarith
  then have "?P * unat (PageCount env b) < 2 ^ LENGTH(64)" by (simp add: n)
  then show eq: "unat (PageSize env * PageCount env b) = ?P * unat (PageCount env b)"
    by (simp only: unat_mult_lem)
  have "?P \<le> unat b + ?P - 1" using b by simp
  then have "1 \<le> (unat b + ?P - 1) div ?P" using p by (simp add: Suc_le_eq div_greater_zero_iff)
  with n p eq have "0 < unat (PageSize env * PageCount env b)" by simp
  then show "0 < PageSize env * PageCount env b" by (simp add: unat_gt_0 word_neq_0_conv)
qed


lemma uint_word_of_int_class:
  assumes "0 \<le> c" and "c < 2 ^ 31"
  shows "uint (word_of_int c :: size_t) = c"
proof -
  have "c < 2 ^ 64" using assms(2) by (rule less_trans) simp
  with assms(1) show ?thesis by (simp add: uint_word_of_int take_bit_int_eq_self)
qed



subsection \<open>The reference collaborators at work\<close>


lemma sim_env_sel [simp]:
  "NumBins sim_env = 11"
  "getSizeClass sim_env = sim_getSizeClass"
  "getClassMaxSize sim_env = sim_getClassMaxSize"
  "DefaultMeshPeriod sim_env = 10000"
  "MinStringLen sim_env = 8"
  "PageSize sim_env = 4096"
  "MaxMeshes sim_env = 4"
  "Super_malloc sim_env = sim_Super_malloc"
  "Super_free sim_env = sim_Super_free"
  "Super_assoc sim_env = sim_Super_assoc"
  "Super_lookup sim_env = sim_Super_lookup"
  "Super_mesh sim_env = sim_Super_mesh"
  "Heap_malloc sim_env = sim_Heap_malloc"
  "measurePssKiB sim_env = ((\<lambda>w. of_nat (brk w div 1024)))"
  "uniform_int_distribution sim_env = sim_uniform"
  "simpleGreedySplitting sim_env = sim_simpleGreedySplitting"
  "mh_construct sim_env = sim_construct"
  "mh_destroy sim_env = sim_destroy"
  "mh_reattach sim_env = ((\<lambda>mh. sim_update mh (\<lambda>m. m\<lparr>mAttached := True\<rparr>)))"
  "mh_isAttached sim_env = (sim_read mAttached False)"
  "mh_ref sim_env = ((\<lambda>mh. sim_update mh (\<lambda>m. m\<lparr>mRefCount := mRefCount m + 1\<rparr>)))"
  "mh_unref sim_env = ((\<lambda>mh. sim_update mh (\<lambda>m. m\<lparr>mRefCount := mRefCount m - 1\<rparr>)))"
  "mh_refCount sim_env = (sim_read mRefCount 0)"
  "mh_free sim_env = sim_free"
  "mh_isEmpty sim_env = (sim_read (\<lambda>m. mBitmap m = []) True)"
  "mh_getSize sim_env = ((\<lambda>w mh ptr. sim_read mObjectSize 0 w mh))"
  "mh_objectSize sim_env = (sim_read mObjectSize 0)"
  "mh_spans sim_env = ((\<lambda>w mh i. sim_read (\<lambda>m. if i < length (mSpans m) then mSpans m ! i else nullptr) nullptr w mh))"
  "mh_spanSize sim_env = (sim_read mSpanSize 0)"
  "mh_meshCount sim_env = (sim_read (\<lambda>m. of_nat (length (mSpans m))) 0)"
  "mh_getSpanStart sim_env = (sim_read (\<lambda>m. case mSpans m of [] \<Rightarrow> nullptr | sp # _ \<Rightarrow> sp) nullptr)"
  "mh_consume sim_env = sim_consume"
  "mh_isMeshingCandidate sim_env = sim_isMeshingCandidate"
  "bin_init sim_env = ((\<lambda>i w. w\<lparr>littleheaps := (littleheaps w)(i := [])\<rparr>))"
  "bin_add sim_env = ((\<lambda>i mh w. w\<lparr>littleheaps := (littleheaps w)(i := littleheaps w i @ [mh])\<rparr>))"
  "bin_remove sim_env = ((\<lambda>i mh w. w\<lparr>littleheaps := (littleheaps w)(i := removeAll mh (littleheaps w i))\<rparr>))"
  "bin_selectForReuse sim_env = sim_selectForReuse"
  "bin_postFree sim_env = sim_postFree"
  "bin_flushFreeMiniheaps sim_env = sim_flushFreeMiniheaps"
  "bin_nonEmptyCount sim_env = ((\<lambda>w i. of_nat (length (filter (\<lambda>mh. \<not> sim_read (\<lambda>m. mBitmap m = []) True w mh) (littleheaps w i)))))"
  "bin_objectSize sim_env = ((\<lambda>w i. sim_getClassMaxSize i))"
  "bin_objectCount sim_env = ((\<lambda>w i. max (4096 div sim_getClassMaxSize i) 8))"
  "bin_allocatedObjectCount sim_env = ((\<lambda>w i. of_nat (sum_list (map (\<lambda>mh. sim_read (\<lambda>m. length (mBitmap m)) 0 w mh) (littleheaps w i)))))"
  "big_malloc sim_env = sim_big_malloc"
  "big_free sim_env = ((\<lambda>ptr w. w\<lparr>bigBlocks := (bigBlocks w)(ptr := None)\<rparr>))"
  "big_getSize sim_env = ((\<lambda>w ptr. case bigBlocks w ptr of None \<Rightarrow> 0 | Some sz \<Rightarrow> sz))"
  "big_arenaSize sim_env = bigArena"
  by (simp_all add: sim_env_def)

lemmas sim_defs = heap_two_def sim_two_def sim_start_def sim_update_def sim_read_def
  sim_getSizeClass_def sim_getClassMaxSize_def sim_Super_malloc_def sim_Super_assoc_def
  sim_Super_free_def sim_Super_lookup_def sim_Super_mesh_def sim_Heap_malloc_def sim_uniform_def
  sim_construct_def sim_destroy_def sim_slot_def sim_free_def sim_consume_def
  sim_isMeshingCandidate_def sim_selectForReuse_def sim_postFree_def sim_release_def
  sim_flushFreeMiniheaps_def sim_simpleGreedySplitting_def sim_big_malloc_def nullptr_def

lemma bins_sim: "bins sim_env = [0,1,2,3,4,5,6,7,8,9,10]"
  unfolding bins_def sim_env_sel by code_simp






lemma flush_two: "sim_flushFreeMiniheaps i sim_two = sim_two"
  by (simp add: sim_flushFreeMiniheaps_def sim_release_def sim_two_def)


lemma split_two:
  "sim_simpleGreedySplitting i sim_two = (if i = 0 then [(1024, 2048)] else [], sim_two)"
  by (auto simp add: sim_simpleGreedySplitting_def sim_read_def sim_two_def Let_def)


lemma fold_const: "(\<And>x. f x w = w) \<Longrightarrow> fold f xs w = w"
  by (induction xs) simp_all

lemma candidate_two:
  "sim_isMeshingCandidate sim_two 1024" "\<not> sim_isMeshingCandidate sim_two 2048"
  by (simp_all add: sim_isMeshingCandidate_def sim_read_def sim_two_def)

lemma collect_two:
  "collectMergeSets sim_env (heap_two p c) =
     ([(1024, 2048)], (heap_two p c)\<lparr>trace := map BinFlush (bins sim_env) @ map Splitting (bins sim_env)\<rparr>)"
  apply (simp add: collectMergeSets_def fold_ext)
  apply (simp add: bins_sim splitClass_def call_def Let_def meshFound_def heap_two_def
      fold_const flush_two split_two candidate_two)
  done

lemma meshAll_two:
  "trace (meshAllSizeClasses sim_env (heap_two p c)) =
     map BinFlush (bins sim_env) @ map Splitting (bins sim_env) @
     [StopTheWorld, Consume 1024 2048, ArenaMesh 65536 69632 4096, BinPostFree 0 1024,
      BinRemove 0 2048, Destruct 2048]"
  apply (simp add: meshAllSizeClasses_def collect_two stopTheWorld_def Let_def)
  apply (simp add: meshLocked_def Let_def fold_ext call_def ext_def freeMiniheapAfterMeshLocked_def
      untrackMiniheapLocked_def heap_two_def)
  apply (simp add: sim_defs)
  done


lemma flush_empty: "littleheaps w i = [] \<Longrightarrow> sim_flushFreeMiniheaps i w = w"
  by (simp add: sim_flushFreeMiniheaps_def)

lemma split_empty: "littleheaps w i = [] \<Longrightarrow> sim_simpleGreedySplitting i w = ([], w)"
  by (simp add: sim_simpleGreedySplitting_def Let_def)

lemma init_empty: "littleheaps w i = [] \<Longrightarrow> bin_init sim_env i w = w"
  by (simp add: fun_upd_idem)

lemma GlobalMeshingHeap_start:
  "GlobalMeshingHeap sim_env sim_start =
     \<lparr>maxObjectSize = 16384, nextMeshCheck = 2018, meshPeriod = 10000,
      stats = \<lparr>meshCount = 0, mhFreeCount = 0, mhAllocCount = 0, mhHighWaterMark = 0\<rparr>,
      world = sim_start\<lparr>rng := 2017 * 6364136223846793005 + 1442695040888963407\<rparr>,
      trace = []\<rparr>"
proof -
  have "fold (bin_init sim_env) xs sim_start = sim_start" for xs
    by (rule fold_const, rule init_empty) (simp add: sim_start_def)
  then show ?thesis
    by (simp add: GlobalMeshingHeap_def resetNextMeshCheck_def sim_uniform_def
        sim_getClassMaxSize_def) (simp add: sim_start_def)
qed

lemma collect_start:
  "collectMergeSets sim_env (GlobalMeshingHeap sim_env sim_start) =
     ([], (GlobalMeshingHeap sim_env sim_start)
            \<lparr>trace := map BinFlush (bins sim_env) @ map Splitting (bins sim_env)\<rparr>)"
  apply (simp add: collectMergeSets_def fold_ext GlobalMeshingHeap_start)
  apply (simp add: bins_sim splitClass_def call_def Let_def fold_const flush_empty split_empty
      sim_start_def)
  done


section \<open>The claims\<close>

subsection \<open>The sink of the meshing pass\<close>

lemma meshFound_first_only:
  "meshFound env w (a, b) q = (if mh_isMeshingCandidate env w a then q @ [(a, b)] else q)"
  by (simp add: meshFound_def)

text \<open>
  C1. The claim: a pair offered to the sink is enqueued only if both of its members
  are meshing candidates, so a pair whose second member is not a candidate is not
  enqueued. The sink tests the first member twice and never the second. On the
  reference heap the splitting offers the pair (1024, 2048); miniheap 2048 is
  attached and so not a candidate, yet the sink enqueues the pair, and the pass
  consumes and destroys miniheap 2048. The sink of \<open>meshSizeClass\<close>, which tests
  both members, turns the same pair down.
\<close>

theorem meshFound_enqueues_noncandidate:
  "mh_isMeshingCandidate sim_env sim_two 1024 \<and>
   \<not> mh_isMeshingCandidate sim_env sim_two 2048 \<and>
   meshFound sim_env sim_two (1024, 2048) [] = [(1024, 2048)] \<and>
   fst (collectMergeSets sim_env (heap_two 1 1)) = [(1024, 2048)] \<and>
   Destruct 2048 \<in> set (trace (meshAllSizeClasses sim_env (heap_two 1 1))) \<and>
   meshFound_sizeClass sim_env sim_two [1024, 2048] [] = []"
  by (simp add: candidate_two meshFound_def meshFound_sizeClass_def collect_two meshAll_two)

subsection \<open>The control channel\<close>

text \<open>
  C2, as the claim states it, fails: a name that \<open>mallctl\<close> does not know, given
  with a good output buffer and an input to write, returns 0 and not -1.
\<close>

theorem mallctl_unknown_name_returns_zero:
  "fst (mallctl sim_env ''mesh.unknown'' (Some 0) (Some 8) (Some 5) 8 (heap_two 1 1)) = 0 \<and>
   fst (mallctl sim_env ''mesh.unknown'' (Some 0) (Some 8) (Some 5) 8 (heap_two 1 1)) \<noteq> - 1"
  by (simp add: mallctl_def sizeof_size_t_def)

text \<open>
  C2, amended: \<open>mallctl\<close> returns -1 exactly when the output buffer or its length
  is missing, when the output length is below \<open>sizeof(size_t)\<close>, or when the name
  is \<open>mesh.check_period\<close> and the input is missing or shorter than
  \<open>sizeof(size_t)\<close>; in every other case, an unknown name included, it returns 0.
  On every -1 return the heap's state is unchanged.
\<close>

theorem mallctl_return_code:
  "fst (mallctl env name oldp oldlenp newp newlen s) =
     (if oldp = None \<or> oldlenp = None \<or> the oldlenp < sizeof_size_t \<or>
         (name = ''mesh.check_period'' \<and> (newp = None \<or> newlen < sizeof_size_t))
      then - 1 else 0) \<and>
   (fst (mallctl env name oldp oldlenp newp newlen s) = - 1 \<longrightarrow>
      snd (snd (mallctl env name oldp oldlenp newp newlen s)) = s)"
  by (auto simp add: mallctl_def split: if_splits)

theorem mallctl_return_code_witness:
  "fst (mallctl sim_env ''mesh.check_period'' (Some 0) (Some 8) None 0 (heap_two 7 3)) = - 1 \<and>
   snd (snd (mallctl sim_env ''mesh.check_period'' (Some 0) (Some 8) None 0 (heap_two 7 3))) = heap_two 7 3 \<and>
   fst (mallctl sim_env ''stats.resident'' None (Some 8) None 0 (heap_two 7 3)) = - 1 \<and>
   fst (mallctl sim_env ''stats.resident'' (Some 0) (Some 4) None 0 (heap_two 7 3)) = - 1 \<and>
   fst (mallctl sim_env ''mesh.check_period'' (Some 0) (Some 8) (Some 5) 8 (heap_two 7 3)) = 0"
  using mallctl_return_code [of sim_env "''mesh.check_period''" "Some 0" "Some 8" None 0 "heap_two 7 3"]
    mallctl_return_code [of sim_env "''stats.resident''" None "Some 8" None 0 "heap_two 7 3"]
    mallctl_return_code [of sim_env "''stats.resident''" "Some 0" "Some 4" None 0 "heap_two 7 3"]
    mallctl_return_code [of sim_env "''mesh.check_period''" "Some 0" "Some 8" "Some 5" 8 "heap_two 7 3"]
  by (simp add: sizeof_size_t_def)

subsection \<open>The meshing trigger and free\<close>

lemma performMeshing_passEvents [simp]:
  "filter passEvent (trace (performMeshing env ms s)) = filter passEvent (trace s)"
proof (induction ms arbitrary: s)
  case Nil
  show ?case by simp
next
  case (Cons m ms)
  have step: "filter passEvent (trace (snd (meshLocked env d r t))) = filter passEvent (trace t)"
    for d r and t :: "'a heap"
  proof (cases "mh_meshCount env (world t) d + mh_meshCount env (world t) r > MaxMeshes env")
    case True
    then show ?thesis by (simp add: meshLocked_refused)
  next
    case False
    from meshLocked_merges(2) [OF False] obtain c c' where
      "trace (snd (meshLocked env d r t)) =
          trace t @ [Consume d r] @
          map (\<lambda>i. ArenaMesh (mh_getSpanStart env (mh_consume env d r (world t)) d)
                      (mh_spans env (mh_consume env d r (world t)) r i)
                      (mh_spanSize env (mh_consume env d r (world t)) d))
            [0..<unat (mh_meshCount env (mh_consume env d r (world t)) r)] @
          [BinPostFree c d, BinRemove c' r, Destruct r]" by blast
    then show ?thesis by (simp add: filter_map_none)
  qed
  show ?case by (simp add: Let_def Cons.IH step)
qed

text \<open>A pass always shows in the trace: one splitting call for each size class.\<close>

lemma meshAllSizeClasses_passEvents:
  "filter passEvent (trace (meshAllSizeClasses env s)) =
     filter passEvent (trace s) @ map Splitting (bins env) @
     (if fst (collectMergeSets env s) = [] then [] else [StopTheWorld])"
proof -
  have "filter passEvent (map BinFlush xs) = []" for xs by (simp add: filter_map_none)
  moreover have "filter passEvent (map Splitting xs) = map Splitting xs" for xs
    by (induction xs) simp_all
  ultimately show ?thesis
    by (simp add: meshAllSizeClasses_def Let_def stopTheWorld_def)
qed

text \<open>
  C3. The claim: a free of a small pointer whose miniheap stays non-empty invokes the
  meshing pass when the trigger fires, so with \<open>mesh.check_period\<close> set to 1 every
  such free runs a pass. In \<open>free\<close> the body of the test of \<open>shouldMesh()\<close> is
  empty. On the reference heap with period 1 and countdown 1, freeing slot 0 of
  miniheap 1024 leaves slot 2 in use and the trigger fires (the countdown is
  reseeded to 1), yet \<open>free\<close> makes three collaborator calls, none of them part of
  a pass, and \<open>meshCount\<close> stays 0.
\<close>

theorem free_trigger_fires_without_pass:
  "meshPeriod (heap_two 1 1) = 1 \<and>
   fst (shouldMesh sim_env (heap_two 1 1)) \<and>
   \<not> mh_isEmpty sim_env (world (free sim_env 65536 (heap_two 1 1))) 1024 \<and>
   nextMeshCheck (free sim_env 65536 (heap_two 1 1)) = 1 \<and>
   trace (free sim_env 65536 (heap_two 1 1)) = [Ref 1024, SlotFree 1024 65536, BinPostFree 0 1024] \<and>
   filter passEvent (trace (free sim_env 65536 (heap_two 1 1))) = [] \<and>
   meshCount (stats (free sim_env 65536 (heap_two 1 1))) = 0"
  by (simp add: free_def miniheapFor_def Let_def shouldMesh_def resetNextMeshCheck_def sim_defs)

text \<open>
  C8. When \<open>meshPeriod\<close> is 0, \<open>shouldMesh()\<close> returns false whatever the
  countdown holds: it only decrements the countdown, which wraps around below 0,
  and the period stays 0. No \<open>free\<close> adds a splitting or stop-the-world call to
  the trace or changes \<open>meshCount\<close>.
\<close>

theorem meshPeriod_zero_disables_meshing:
  assumes "meshPeriod s = 0"
  shows "fst (shouldMesh env s) = False \<and>
         snd (shouldMesh env s) = s\<lparr>nextMeshCheck := nextMeshCheck s - 1\<rparr> \<and>
         filter passEvent (trace (free env ptr s)) = filter passEvent (trace s) \<and>
         meshCount (stats (free env ptr s)) = meshCount (stats s) \<and>
         meshPeriod (free env ptr s) = 0"
  using assms by (simp add: shouldMesh_def Let_def free_frame)

theorem meshPeriod_zero_disables_meshing_witness:
  "meshPeriod (heap_two 0 0) = 0 \<and>
   fst (shouldMesh sim_env (heap_two 0 0)) = False \<and>
   nextMeshCheck (snd (shouldMesh sim_env (heap_two 0 0))) = 18446744073709551615 \<and>
   fst (shouldMesh sim_env (heap_two 0 1)) = False \<and>
   nextMeshCheck (snd (shouldMesh sim_env (heap_two 0 1))) = 0 \<and>
   filter passEvent (trace (free sim_env 65536 (heap_two 0 1))) = [] \<and>
   meshCount (stats (free sim_env 65536 (heap_two 0 1))) = 0"
  using meshPeriod_zero_disables_meshing [of "heap_two 0 0" sim_env 65536]
    meshPeriod_zero_disables_meshing [of "heap_two 0 1" sim_env 65536]
  by (simp add: heap_two_def)

subsection \<open>The size of an allocation\<close>

text \<open>
  C9. \<open>getSize(nullptr)\<close> is 0 and changes nothing. For a non-null pointer that the
  arena resolves to a miniheap, \<open>getSize\<close> returns that miniheap's \<open>getSize\<close> of the
  pointer, and its only calls that change anything are the \<open>ref\<close> of the lookup
  followed by one \<open>unref\<close> of the same miniheap; where \<open>ref\<close> adds one to the
  reference count and \<open>unref\<close> takes one off, the count ends where it started. For
  a non-null pointer inside no span it returns the big heap's size and changes
  nothing.
\<close>

theorem getSize_contract:
  "getSize env nullptr s = (0, s) \<and>
   (ptr \<noteq> nullptr \<and> Super_lookup env (world s) ptr = mh \<and> mh \<noteq> nullptr \<longrightarrow>
      fst (getSize env ptr s) = mh_getSize env (mh_ref env mh (world s)) mh ptr \<and>
      snd (getSize env ptr s) =
        s\<lparr>world := mh_unref env mh (mh_ref env mh (world s)), trace := trace s @ [Ref mh, Unref mh]\<rparr> \<and>
      (mh_refCount env (mh_ref env mh (world s)) mh = mh_refCount env (world s) mh + 1 \<and>
       mh_refCount env (mh_unref env mh (mh_ref env mh (world s))) mh =
         mh_refCount env (mh_ref env mh (world s)) mh - 1 \<longrightarrow>
       mh_refCount env (world (snd (getSize env ptr s))) mh = mh_refCount env (world s) mh)) \<and>
   (ptr \<noteq> nullptr \<and> Super_lookup env (world s) ptr = nullptr \<longrightarrow>
      getSize env ptr s = (big_getSize env (world s) ptr, s))"
  by (simp add: getSize_def miniheapFor_def Let_def ext_def)

theorem getSize_contract_witness:
  "Super_lookup sim_env (world (heap_two 1 1)) 65568 = 1024 \<and>
   fst (getSize sim_env 65568 (heap_two 1 1)) = 16 \<and>
   mh_refCount sim_env (mh_ref sim_env 1024 (world (heap_two 1 1))) 1024 = 1 \<and>
   mh_refCount sim_env (world (snd (getSize sim_env 65568 (heap_two 1 1)))) 1024 =
     mh_refCount sim_env (world (heap_two 1 1)) 1024 \<and>
   Super_lookup sim_env (snd (sim_big_malloc 1048576 sim_two)) 73728 = nullptr \<and>
   getSize sim_env 73728 ((heap_two 1 1)\<lparr>world := snd (sim_big_malloc 1048576 sim_two)\<rparr>) =
     (1048576, (heap_two 1 1)\<lparr>world := snd (sim_big_malloc 1048576 sim_two)\<rparr>)"
  using getSize_contract [of sim_env "heap_two 1 1" 65568 1024]
    getSize_contract [of sim_env "(heap_two 1 1)\<lparr>world := snd (sim_big_malloc 1048576 sim_two)\<rparr>" 73728 nullptr]
  by (simp add: sim_defs)

subsection \<open>Large and small requests to malloc\<close>

text \<open>
  C10. For every size whose class maximum is at most \<open>maxObjectSize\<close>, \<open>malloc\<close>
  aborts: it returns neither a pointer nor null. Only a size whose class maximum
  exceeds \<open>maxObjectSize\<close> reaches the big heap, and the result is then whatever
  the big heap's \<open>malloc\<close> returns.
\<close>

theorem malloc_aborts_unless_large:
  "(getClassMaxSize env (getSizeClass env sz) \<le> maxObjectSize s \<longrightarrow> malloc env sz s = Inl Abort) \<and>
   (maxObjectSize s < getClassMaxSize env (getSizeClass env sz) \<longrightarrow>
      malloc env sz s =
        Inr (fst (big_malloc env sz (world s)),
             s\<lparr>world := snd (big_malloc env sz (world s)), trace := trace s @ [BigMalloc sz]\<rparr>))"
  by (auto simp add: malloc_def call_def Let_def)

theorem malloc_aborts_unless_large_witness:
  "getClassMaxSize sim_env (getSizeClass sim_env 16) \<le> maxObjectSize (heap_two 1 1) \<and>
   malloc sim_env 16 (heap_two 1 1) = Inl Abort \<and>
   malloc sim_env 16384 (heap_two 1 1) = Inl Abort \<and>
   maxObjectSize (heap_two 1 1) < getClassMaxSize sim_env (getSizeClass sim_env 16385) \<and>
   map_sum id fst (malloc sim_env 16385 (heap_two 1 1)) = Inr 73728"
  using malloc_aborts_unless_large [of sim_env 16 "heap_two 1 1"]
    malloc_aborts_unless_large [of sim_env 16384 "heap_two 1 1"]
    malloc_aborts_unless_large [of sim_env 16385 "heap_two 1 1"]
  by (simp add: sim_defs)

subsection \<open>The cap on meshes\<close>

text \<open>
  C5. When the mesh counts of \<open>dst\<close> and \<open>src\<close> add up (as the code adds them, in
  \<open>size_t\<close>) to more than \<open>MaxMeshes\<close>, \<open>meshLocked\<close> changes nothing: the heap, its collaborators and the trace are as
  before (no consume, no arena mesh, no destruction) and \<open>src\<close> is not nulled.
  Otherwise the merge proceeds: \<open>dst\<close> consumes \<open>src\<close>, the arena meshes each span
  of \<open>src\<close> onto the start of \<open>dst\<close>, the tracker of \<open>dst\<close> is notified, \<open>src\<close> is
  untracked and destroyed, and the caller's \<open>src\<close> becomes null.
\<close>

theorem meshLocked_respects_MaxMeshes:
  "(mh_meshCount env (world s) dst + mh_meshCount env (world s) src > MaxMeshes env \<longrightarrow>
      meshLocked env dst src s = (src, s)) \<and>
   (\<not> mh_meshCount env (world s) dst + mh_meshCount env (world s) src > MaxMeshes env \<longrightarrow>
      (let w1 = mh_consume env dst src (world s);
           n = unat (mh_meshCount env w1 src);
           start = mh_getSpanStart env w1 dst;
           size = mh_spanSize env w1 dst;
           spans = mh_spans env w1 src;
           w2 = fold (\<lambda>i. Super_mesh env start (spans i) size) [0..<n] w1;
           c = getSizeClass env (mh_objectSize env w2 dst);
           w3 = snd (bin_postFree env c dst w2);
           c' = uint (word_of_int (getSizeClass env (mh_objectSize env w3 src)) :: size_t)
       in meshLocked env dst src s =
            (nullptr,
             s\<lparr>world := mh_destroy env src (bin_remove env c' src w3),
               trace := trace s @ [Consume dst src] @
                        map (\<lambda>i. ArenaMesh start (spans i) size) [0..<n] @
                        [BinPostFree c dst, BinRemove c' src, Destruct src],
               stats := (stats s)\<lparr>mhAllocCount := mhAllocCount (stats s) - 1\<rparr>\<rparr>)))"
  by (simp add: meshLocked_def Let_def fold_ext call_def ext_def
      freeMiniheapAfterMeshLocked_def untrackMiniheapLocked_def)

theorem meshLocked_respects_MaxMeshes_witness:
  "mh_meshCount sim_env (sim_update 1024 (\<lambda>m. m\<lparr>mSpans := [65536, 77824, 81920, 86016]\<rparr>) sim_two) 1024
     + mh_meshCount sim_env (sim_update 1024 (\<lambda>m. m\<lparr>mSpans := [65536, 77824, 81920, 86016]\<rparr>) sim_two) 2048
     > MaxMeshes sim_env \<and>
   meshLocked sim_env 1024 2048
       ((heap_two 1 1)\<lparr>world := sim_update 1024 (\<lambda>m. m\<lparr>mSpans := [65536, 77824, 81920, 86016]\<rparr>) sim_two\<rparr>) =
     (2048, (heap_two 1 1)\<lparr>world := sim_update 1024 (\<lambda>m. m\<lparr>mSpans := [65536, 77824, 81920, 86016]\<rparr>) sim_two\<rparr>) \<and>
   \<not> mh_meshCount sim_env sim_two 1024 + mh_meshCount sim_env sim_two 2048 > MaxMeshes sim_env \<and>
   fst (meshLocked sim_env 1024 2048 (heap_two 1 1)) = nullptr \<and>
   mhAllocCount (stats (snd (meshLocked sim_env 1024 2048 (heap_two 1 1)))) = 1"
proof -
  let ?w = "sim_update 1024 (\<lambda>m. m\<lparr>mSpans := [65536, 77824, 81920, 86016]\<rparr>) sim_two"
  let ?s = "(heap_two 1 1)\<lparr>world := ?w\<rparr>"
  have over: "mh_meshCount sim_env ?w 1024 + mh_meshCount sim_env ?w 2048 > MaxMeshes sim_env"
    by (simp add: sim_read_def sim_update_def sim_two_def)
  then have "mh_meshCount sim_env (world ?s) 1024 + mh_meshCount sim_env (world ?s) 2048 > MaxMeshes sim_env"
    by simp
  with meshLocked_respects_MaxMeshes [of sim_env ?s 1024 2048]
  have refused: "meshLocked sim_env 1024 2048 ?s = (2048, ?s)" by blast
  have under: "\<not> mh_meshCount sim_env sim_two 1024 + mh_meshCount sim_env sim_two 2048 > MaxMeshes sim_env"
    by (simp add: sim_read_def sim_two_def)
  then have "\<not> mh_meshCount sim_env (world (heap_two 1 1)) 1024
               + mh_meshCount sim_env (world (heap_two 1 1)) 2048 > MaxMeshes sim_env"
    by (simp add: heap_two_def)
  with meshLocked_respects_MaxMeshes [of sim_env "heap_two 1 1" 1024 2048]
  have "fst (meshLocked sim_env 1024 2048 (heap_two 1 1)) = nullptr \<and>
        stats (snd (meshLocked sim_env 1024 2048 (heap_two 1 1))) =
          (stats (heap_two 1 1))\<lparr>mhAllocCount := mhAllocCount (stats (heap_two 1 1)) - 1\<rparr>"
    by (simp add: Let_def)
  then have merged: "fst (meshLocked sim_env 1024 2048 (heap_two 1 1)) = nullptr \<and>
        mhAllocCount (stats (snd (meshLocked sim_env 1024 2048 (heap_two 1 1)))) = 1"
    by (simp add: heap_two_def)
  from over refused under merged show ?thesis by blast
qed

subsection \<open>The candidate queue of a pass\<close>

text \<open>
  C6. In \<open>meshAllSizeClasses\<close>, when the queue collected from all size classes is
  empty, the pass ends there: the stop-the-world primitive is not invoked and
  \<open>meshCount\<close> is as before. Otherwise \<open>meshCount\<close> goes up by exactly the length
  of the queue, and then the stop-the-world primitive is invoked once, running
  \<open>performMeshing\<close> on the queue.
\<close>

theorem meshAllSizeClasses_queue:
  "(fst (collectMergeSets env s) = [] \<longrightarrow>
      meshAllSizeClasses env s = snd (collectMergeSets env s) \<and>
      count_list (trace (meshAllSizeClasses env s)) StopTheWorld = count_list (trace s) StopTheWorld \<and>
      meshCount (stats (meshAllSizeClasses env s)) = meshCount (stats s)) \<and>
   (fst (collectMergeSets env s) \<noteq> [] \<longrightarrow>
      meshAllSizeClasses env s =
        performMeshing env (fst (collectMergeSets env s))
          ((snd (collectMergeSets env s))
             \<lparr>stats := (stats s)\<lparr>meshCount := meshCount (stats s) + of_nat (length (fst (collectMergeSets env s)))\<rparr>,
              trace := trace (snd (collectMergeSets env s)) @ [StopTheWorld]\<rparr>) \<and>
      count_list (trace (meshAllSizeClasses env s)) StopTheWorld = count_list (trace s) StopTheWorld + 1 \<and>
      meshCount (stats (meshAllSizeClasses env s)) =
        meshCount (stats s) + of_nat (length (fst (collectMergeSets env s))))"
  by (simp add: meshAllSizeClasses_def Let_def stopTheWorld_def count_list_0_iff image_iff)

theorem meshAllSizeClasses_queue_witness:
  "fst (collectMergeSets sim_env (GlobalMeshingHeap sim_env sim_start)) = [] \<and>
   count_list (trace (meshAllSizeClasses sim_env (GlobalMeshingHeap sim_env sim_start))) StopTheWorld = 0 \<and>
   meshCount (stats (meshAllSizeClasses sim_env (GlobalMeshingHeap sim_env sim_start))) = 0 \<and>
   fst (collectMergeSets sim_env (heap_two 1 1)) = [(1024, 2048)] \<and>
   count_list (trace (meshAllSizeClasses sim_env (heap_two 1 1))) StopTheWorld = 1 \<and>
   meshCount (stats (meshAllSizeClasses sim_env (heap_two 1 1))) = 1"
proof -
  let ?s = "GlobalMeshingHeap sim_env sim_start"
  have e: "fst (collectMergeSets sim_env ?s) = []" by (simp add: collect_start)
  with meshAllSizeClasses_queue [of sim_env ?s]
  have "count_list (trace (meshAllSizeClasses sim_env ?s)) StopTheWorld = count_list (trace ?s) StopTheWorld \<and>
        meshCount (stats (meshAllSizeClasses sim_env ?s)) = meshCount (stats ?s)"
    by blast
  then have empty: "count_list (trace (meshAllSizeClasses sim_env ?s)) StopTheWorld = 0 \<and>
        meshCount (stats (meshAllSizeClasses sim_env ?s)) = 0"
    by (simp add: GlobalMeshingHeap_start)
  have q: "fst (collectMergeSets sim_env (heap_two 1 1)) = [(1024, 2048)]" by (simp add: collect_two)
  then have "fst (collectMergeSets sim_env (heap_two 1 1)) \<noteq> []" by simp
  with meshAllSizeClasses_queue [of sim_env "heap_two 1 1"]
  have "count_list (trace (meshAllSizeClasses sim_env (heap_two 1 1))) StopTheWorld =
          count_list (trace (heap_two 1 1)) StopTheWorld + 1 \<and>
        meshCount (stats (meshAllSizeClasses sim_env (heap_two 1 1))) =
          meshCount (stats (heap_two 1 1)) + of_nat (length (fst (collectMergeSets sim_env (heap_two 1 1))))"
    by blast
  then have full: "count_list (trace (meshAllSizeClasses sim_env (heap_two 1 1))) StopTheWorld = 1 \<and>
        meshCount (stats (meshAllSizeClasses sim_env (heap_two 1 1))) = 1"
    by (simp add: q) (simp add: heap_two_def)
  from e empty q full show ?thesis by blast
qed

subsection \<open>Creating a miniheap\<close>

text \<open>
  C7. When the tracker of the size class has no miniheap to reuse, and the arena and
  the metadata heap both return storage, \<open>allocMiniheap\<close> takes
  \<open>nObjects = max(PageSize / sizeMax, MinStringLen)\<close>, asks the arena for a span of
  \<open>nPages = ceil(sizeMax * nObjects / PageSize)\<close> pages, constructs the miniheap
  over that span, associates the span with it, adds it to the tracker of the class,
  adds one to \<open>mhAllocCount\<close> and returns it. The preconditions of the function are
  those its assertions state; the sizes are positive and their product fits a
  \<open>size_t\<close>.
\<close>

theorem allocMiniheap_creates_miniheap:
  fixes env :: "'w env" and s :: "'w heap"
  assumes sc: "sc = getSizeClass env objectSize"
    and sizeMax: "sizeMax = getClassMaxSize env sc"
    and nObjects: "nObjects = max (PageSize env div sizeMax) (MinStringLen env)"
    and nPages: "nPages = PageCount env (sizeMax * nObjects)"
    and spanSize: "spanSize = PageSize env * nPages"
    and r1: "bin_selectForReuse env sc (world s) = (nullptr, w1)"
    and r2: "Super_malloc env spanSize w1 = (spn, w2)"
    and r3: "Heap_malloc env w2 = (buf, w3)"
    and pre: "objectSize \<le> maxObjectSize s" "objectSize = sizeMax" "0 \<le> sc" "sc < int (NumBins env)"
    and cfg: "NumBins env < 2 ^ 31" "0 < PageSize env" "0 < MinStringLen env" "0 < sizeMax"
      "unat sizeMax * unat nObjects + unat (PageSize env) \<le> 2 ^ 64"
    and ok: "spn \<noteq> nullptr" "buf \<noteq> nullptr"
  shows "allocMiniheap env objectSize s =
           Inr (buf,
                s\<lparr>world := bin_add env sc buf (Super_assoc env spn buf nPages
                              (mh_construct env buf spn nObjects sizeMax spanSize w3)),
                  trace := trace s @ [BinSelectForReuse sc, ArenaMalloc spanSize, MetaMalloc,
                             Construct buf spn nObjects sizeMax spanSize, ArenaAssoc spn buf nPages,
                             BinAdd sc buf],
                  stats := (stats s)\<lparr>mhAllocCount := mhAllocCount (stats s) + 1\<rparr>\<rparr>) \<and>
         int (unat nPages) = \<lceil>real (unat sizeMax * unat nObjects) / real (unat (PageSize env))\<rceil> \<and>
         unat spanSize = unat (PageSize env) * unat nPages"
proof -
  let ?P = "unat (PageSize env)"
  have p: "0 < ?P" using cfg(2) by (simp add: unat_gt_0 word_neq_0_conv)
  have "0 < nObjects" using cfg(3) by (simp add: nObjects less_max_iff_disj)
  then have n: "0 < unat nObjects" by (simp add: unat_gt_0 word_neq_0_conv)
  have a: "0 < unat sizeMax" using cfg(4) by (simp add: unat_gt_0 word_neq_0_conv)
  have "unat sizeMax * unat nObjects < 2 ^ LENGTH(64)" using cfg(5) p by simp
  then have bytes: "unat (sizeMax * nObjects) = unat sizeMax * unat nObjects"
    by (simp only: unat_mult_lem)
  with a n have "0 < unat (sizeMax * nObjects)" by simp
  then have pos: "0 < sizeMax * nObjects" by (simp add: unat_gt_0 word_neq_0_conv)
  have room: "unat (sizeMax * nObjects) + ?P \<le> 2 ^ 64" using cfg(5) bytes by simp
  have pages: "unat nPages = (unat sizeMax * unat nObjects + ?P - 1) div ?P"
    using PageCount_unat [OF cfg(2) room] by (simp add: nPages bytes)
  have ceil: "int (unat nPages) = \<lceil>real (unat sizeMax * unat nObjects) / real ?P\<rceil>"
    using ceiling_div_nat [OF p, of "unat sizeMax * unat nObjects"] pages by simp
  have span_eq: "unat spanSize = ?P * unat nPages"
    using span_bytes(1) [OF cfg(2) pos room] by (simp add: spanSize nPages)
  have span_pos: "0 < spanSize"
    using span_bytes(2) [OF cfg(2) pos room] by (simp add: spanSize nPages)
  have "int (NumBins env) < int (2 ^ 31)" using cfg(1) by (simp only: of_nat_less_iff)
  then have "int (NumBins env) < 2 ^ 31" by simp
  with pre(4) have "sc < 2 ^ 31" by linarith
  then have idx: "uint (word_of_int sc :: size_t) = sc"
    using pre(3) by (simp add: uint_word_of_int_class)
  have nz: "sizeMax \<noteq> 0" using cfg(4) by simp
  have "allocMiniheap env objectSize s =
           Inr (buf,
                s\<lparr>world := bin_add env sc buf (Super_assoc env spn buf nPages
                              (mh_construct env buf spn nObjects sizeMax spanSize w3)),
                  trace := trace s @ [BinSelectForReuse sc, ArenaMalloc spanSize, MetaMalloc,
                             Construct buf spn nObjects sizeMax spanSize, ArenaAssoc spn buf nPages,
                             BinAdd sc buf],
                  stats := (stats s)\<lparr>mhAllocCount := mhAllocCount (stats s) + 1\<rparr>\<rparr>)"
    using pre ok span_pos nz r1 r2 r3 idx
    unfolding allocMiniheap_def sc [symmetric] sizeMax [symmetric] Let_def
      nObjects [symmetric] nPages [symmetric] spanSize [symmetric]
    by (simp add: call_def ext_def trackMiniheapLocked_def)
  with ceil span_eq show ?thesis by simp
qed

theorem allocMiniheap_creates_miniheap_witness:
  "fst (bin_selectForReuse sim_env 10 (world (GlobalMeshingHeap sim_env sim_start))) = nullptr \<and>
   map_sum id fst (allocMiniheap sim_env 16384 (GlobalMeshingHeap sim_env sim_start)) = Inr 196608 \<and>
   map_sum id (\<lambda>r. trace (snd r)) (allocMiniheap sim_env 16384 (GlobalMeshingHeap sim_env sim_start)) =
     Inr [BinSelectForReuse 10, ArenaMalloc 131072, MetaMalloc, Construct 196608 65536 8 16384 131072,
          ArenaAssoc 65536 196608 32, BinAdd 10 196608] \<and>
   map_sum id (\<lambda>r. mhAllocCount (stats (snd r))) (allocMiniheap sim_env 16384 (GlobalMeshingHeap sim_env sim_start)) =
     Inr 1 \<and>
   PageCount sim_env (16384 * 8) = 32"
proof -
  let ?s = "GlobalMeshingHeap sim_env sim_start"
  let ?w = "sim_start\<lparr>rng := 2017 * 6364136223846793005 + 1442695040888963407\<rparr>"
  have w: "world ?s = ?w" by (simp add: GlobalMeshingHeap_start)
  have pc: "PageCount sim_env 131072 = 32" by (simp add: PageCount_def)
  have r1: "bin_selectForReuse sim_env 10 (world ?s) = (nullptr, ?w)"
    by (simp only: w) (simp add: sim_selectForReuse_def sim_start_def)
  have r2: "Super_malloc sim_env 131072 ?w = (65536, ?w\<lparr>brk := 196608\<rparr>)"
    by (simp add: sim_Super_malloc_def sim_start_def)
  have r3: "Heap_malloc sim_env (?w\<lparr>brk := 196608\<rparr>) = (196608, ?w\<lparr>brk := 196864\<rparr>)"
    by (simp add: sim_Heap_malloc_def sim_start_def)
  have "allocMiniheap sim_env 16384 ?s =
           Inr (196608,
                ?s\<lparr>world := bin_add sim_env 10 196608 (Super_assoc sim_env 65536 196608 32
                              (mh_construct sim_env 196608 65536 8 16384 131072 (?w\<lparr>brk := 196864\<rparr>))),
                  trace := trace ?s @ [BinSelectForReuse 10, ArenaMalloc 131072, MetaMalloc,
                             Construct 196608 65536 8 16384 131072, ArenaAssoc 65536 196608 32,
                             BinAdd 10 196608],
                  stats := (stats ?s)\<lparr>mhAllocCount := mhAllocCount (stats ?s) + 1\<rparr>\<rparr>) \<and>
         int (unat (32 :: size_t)) = \<lceil>real (unat (16384 :: size_t) * unat (8 :: size_t)) / real (unat (PageSize sim_env))\<rceil> \<and>
         unat (131072 :: size_t) = unat (PageSize sim_env) * unat (32 :: size_t)"
    by (rule allocMiniheap_creates_miniheap [OF _ _ _ _ _ r1 r2 r3])
       (simp_all add: pc sim_getSizeClass_def sim_getClassMaxSize_def nullptr_def GlobalMeshingHeap_start)
  then show ?thesis using r1 pc by (simp add: GlobalMeshingHeap_start)
qed

subsection \<open>The count of allocated miniheaps\<close>

text \<open>
  C4, as the claim states it, fails: \<open>freeMiniheap\<close> with \<open>untrack\<close> set goes
  through \<open>untrackMiniheapLocked\<close>, which takes one off \<open>mhAllocCount\<close>. On the
  reference heap the counter falls from 2 to 1.
\<close>

theorem freeMiniheap_decreases_mhAllocCount:
  "mhAllocCount (stats (heap_two 1 1)) = 2 \<and>
   mhAllocCount (stats (snd (freeMiniheap sim_env 1024 True (heap_two 1 1)))) = 1 \<and>
   mhAllocCount (stats (snd (freeMiniheap sim_env 1024 True (heap_two 1 1)))) < mhAllocCount (stats (heap_two 1 1))"
  by (simp add: freeMiniheap_simps heap_two_def)

text \<open>
  C4, amended: \<open>mhAllocCount\<close> is decreased only by untracking. Across
  \<open>allocMiniheap\<close>, \<open>free\<close>, \<open>freeMiniheap\<close>, \<open>meshLocked\<close>, \<open>meshAllSizeClasses\<close>
  and \<open>mallctl\<close> the counter goes up by one for each miniheap constructed and down
  by one for each miniheap untracked (by \<open>freeMiniheap\<close> called with \<open>untrack\<close>
  set, and by every merge that \<open>meshLocked\<close> performs), in \<open>size_t\<close> arithmetic,
  and changes in no other way.
\<close>

theorem mhAllocCount_follows_create_and_untrack:
  "(case allocMiniheap env objectSize s of Inl e \<Rightarrow> True | Inr r \<Rightarrow> allocBalance (snd r) = allocBalance s) \<and>
   allocBalance (free env ptr s) = allocBalance s \<and>
   allocBalance (snd (freeMiniheap env mh untrack s)) = allocBalance s \<and>
   allocBalance (snd (meshLocked env dst src s)) = allocBalance s \<and>
   allocBalance (meshAllSizeClasses env s) = allocBalance s \<and>
   allocBalance (snd (snd (mallctl env name oldp oldlenp newp newlen s))) = allocBalance s"
  by (simp add: allocMiniheap_balance free_balance freeMiniheap_simps mallctl_balance split: sum.split)

lemma allocMiniheap_start:
  "map_sum id (\<lambda>r. (fst r, stats (snd r), trace (snd r)))
     (allocMiniheap sim_env 16384 (GlobalMeshingHeap sim_env sim_start)) =
   Inr (196608,
        \<lparr>meshCount = 0, mhFreeCount = 0, mhAllocCount = 1, mhHighWaterMark = 0\<rparr>,
        [BinSelectForReuse 10, ArenaMalloc 131072, MetaMalloc, Construct 196608 65536 8 16384 131072,
         ArenaAssoc 65536 196608 32, BinAdd 10 196608])"
  apply (simp add: allocMiniheap_def GlobalMeshingHeap_start Let_def sim_getSizeClass_def
      sim_getClassMaxSize_def PageCount_def)
  apply (simp add: call_def ext_def trackMiniheapLocked_def sim_selectForReuse_def sim_start_def
      sim_Super_malloc_def sim_Heap_malloc_def nullptr_def)
  done

theorem mhAllocCount_follows_create_and_untrack_witness:
  "allocBalance (heap_two 1 1) = 2 \<and>
   mhAllocCount (stats (snd (freeMiniheap sim_env 1024 True (heap_two 1 1)))) = 1 \<and>
   allocBalance (snd (freeMiniheap sim_env 1024 True (heap_two 1 1))) = 2 \<and>
   allocBalance (meshAllSizeClasses sim_env (heap_two 1 1)) = 2 \<and>
   allocBalance (GlobalMeshingHeap sim_env sim_start) = 0 \<and>
   map_sum id (\<lambda>r. mhAllocCount (stats (snd r)))
     (allocMiniheap sim_env 16384 (GlobalMeshingHeap sim_env sim_start)) = Inr 1 \<and>
   map_sum id (\<lambda>r. allocBalance (snd r))
     (allocMiniheap sim_env 16384 (GlobalMeshingHeap sim_env sim_start)) = Inr 0"
proof -
  let ?t = "GlobalMeshingHeap sim_env sim_start"
  have two: "allocBalance (heap_two 1 1) = 2" by (simp add: allocBalance_def heap_two_def)
  have start: "allocBalance ?t = 0" by (simp add: allocBalance_def GlobalMeshingHeap_start)
  have dec: "mhAllocCount (stats (snd (freeMiniheap sim_env 1024 True (heap_two 1 1)))) = 1"
    by (simp add: freeMiniheap_simps heap_two_def)
  from mhAllocCount_follows_create_and_untrack
      [where env = sim_env and objectSize = 16 and s = "heap_two 1 1" and ptr = 65536 and mh = 1024
         and untrack = True and dst = 1024 and src = 2048 and name = "''arena''" and oldp = None
         and oldlenp = None and newp = None and newlen = 0]
  have kept: "allocBalance (snd (freeMiniheap sim_env 1024 True (heap_two 1 1))) = allocBalance (heap_two 1 1) \<and>
      allocBalance (meshAllSizeClasses sim_env (heap_two 1 1)) = allocBalance (heap_two 1 1)"
    by blast
  obtain r where r: "allocMiniheap sim_env 16384 ?t = Inr r" "mhAllocCount (stats (snd r)) = 1"
    using allocMiniheap_start by (cases "allocMiniheap sim_env 16384 ?t") auto
  from mhAllocCount_follows_create_and_untrack
      [where env = sim_env and objectSize = 16384 and s = ?t and ptr = 65536 and mh = 1024
         and untrack = True and dst = 1024 and src = 2048 and name = "''arena''" and oldp = None
         and oldlenp = None and newp = None and newlen = 0] r(1)
  have "allocBalance (snd r) = allocBalance ?t" by simp
  with r start have created: "map_sum id (\<lambda>r. mhAllocCount (stats (snd r))) (allocMiniheap sim_env 16384 ?t) = Inr 1 \<and>
      map_sum id (\<lambda>r. allocBalance (snd r)) (allocMiniheap sim_env 16384 ?t) = Inr 0"
    by simp
  from two start dec kept created show ?thesis by simp
qed

end
